theory Spec2Isabelle
  imports Complex_Main "HOL-Library.AList" "HOL-Library.Char_ord" "HOL-Library.List_Lexorder"
    "HOL-Library.Log_Nat" "HOL-Library.Code_Target_Numeral"
begin

section \<open>JavaScript values, company records and strings\<close>

text \<open>
  A company is a plain JavaScript object used as a bag of columns. The values that occur
  in the modules are \<^verbatim>\<open>undefined\<close>, \<^verbatim>\<open>null\<close>, booleans, numbers, strings and arrays of strings
  (the source lists). Numbers are exact rationals: the only arithmetic in the modules is
  the sum of a few one-digit decimal weights and a halving, far away from any rounding
  that could move a comparison (the conversion of a string to a number does round).
  Strings are byte sequences (UTF-8).
\<close>

datatype jsval =
    JUndefined
  | JNull
  | JBool bool
  | JNum rat
  | JStr string
  | JArr "string list"

type_synonym company = "(string \<times> jsval) list"

text \<open>\<^verbatim>\<open>company[k]\<close>: a missing property reads as \<^verbatim>\<open>undefined\<close>.\<close>

definition readProp :: "company \<Rightarrow> string \<Rightarrow> jsval" where
  "readProp c k = (case map_of c k of None \<Rightarrow> JUndefined | Some v \<Rightarrow> v)"

text \<open>\<^verbatim>\<open>company[k] = v\<close>: an existing key keeps its position, a new key is appended.\<close>

definition assign :: "string \<Rightarrow> jsval \<Rightarrow> company \<Rightarrow> company" where
  "assign k v c = AList.update k v c"

fun truthy :: "jsval \<Rightarrow> bool" where
  "truthy JUndefined = False"
| "truthy JNull = False"
| "truthy (JBool b) = b"
| "truthy (JNum n) = (n \<noteq> 0)"
| "truthy (JStr s) = (s \<noteq> [])"
| "truthy (JArr xs) = True"

text \<open>\<^verbatim>\<open>a || b\<close>\<close>

definition js_or :: "jsval \<Rightarrow> jsval \<Rightarrow> jsval" where
  "js_or a b = (if truthy a then a else b)"

primrec js_join :: "string \<Rightarrow> string list \<Rightarrow> string" where
  "js_join sep [] = []"
| "js_join sep (x # xs) = (if xs = [] then x else x @ sep @ js_join sep xs)"

primrec startsWith :: "string \<Rightarrow> string \<Rightarrow> bool" where
  "startsWith s [] = True"
| "startsWith s (p # ps) = (case s of [] \<Rightarrow> False | ch # cs \<Rightarrow> ch = p \<and> startsWith cs ps)"

text \<open>
  The white space of the language (\<^verbatim>\<open>WhiteSpace\<close> and \<^verbatim>\<open>LineTerminator\<close>) in UTF-8: tab, line
  feed, vertical tab, form feed, carriage return, space, U+00A0, U+1680, U+2000 to
  U+200A, U+2028, U+2029, U+202F, U+205F, U+3000 and U+FEFF.
\<close>

definition whiteSpace :: "string list" where
  "whiteSpace =
     [[CHR 0x09], [CHR 0x0A], [CHR 0x0B], [CHR 0x0C], [CHR 0x0D], [CHR 0x20],
      [CHR 0xC2, CHR 0xA0],
      [CHR 0xE1, CHR 0x9A, CHR 0x80],
      [CHR 0xE2, CHR 0x80, CHR 0x80], [CHR 0xE2, CHR 0x80, CHR 0x81],
      [CHR 0xE2, CHR 0x80, CHR 0x82], [CHR 0xE2, CHR 0x80, CHR 0x83],
      [CHR 0xE2, CHR 0x80, CHR 0x84], [CHR 0xE2, CHR 0x80, CHR 0x85],
      [CHR 0xE2, CHR 0x80, CHR 0x86], [CHR 0xE2, CHR 0x80, CHR 0x87],
      [CHR 0xE2, CHR 0x80, CHR 0x88], [CHR 0xE2, CHR 0x80, CHR 0x89],
      [CHR 0xE2, CHR 0x80, CHR 0x8A],
      [CHR 0xE2, CHR 0x80, CHR 0xA8], [CHR 0xE2, CHR 0x80, CHR 0xA9],
      [CHR 0xE2, CHR 0x80, CHR 0xAF],
      [CHR 0xE2, CHR 0x81, CHR 0x9F],
      [CHR 0xE3, CHR 0x80, CHR 0x80],
      [CHR 0xEF, CHR 0xBB, CHR 0xBF]]"

text \<open>Drop from the front as long as one of the given byte sequences stands there.\<close>

fun dropSeqs :: "string list \<Rightarrow> string \<Rightarrow> string" where
  "dropSeqs seqs [] = []"
| "dropSeqs seqs (ch # cs) =
     (case List.find (\<lambda>w. w \<noteq> [] \<and> startsWith (ch # cs) w) seqs of
        None \<Rightarrow> ch # cs
      | Some w \<Rightarrow> dropSeqs seqs (drop (length w - 1) cs))"

text \<open>\<^verbatim>\<open>s.trim()\<close> and its two halves.\<close>

definition trimStart :: "string \<Rightarrow> string" where
  "trimStart s = dropSeqs whiteSpace s"

definition trimEnd :: "string \<Rightarrow> string" where
  "trimEnd s = rev (dropSeqs (map rev whiteSpace) (rev s))"

definition js_trim :: "string \<Rightarrow> string" where
  "js_trim s = trimEnd (trimStart s)"

definition digit_val :: "char \<Rightarrow> nat option" where
  "digit_val ch = map_of (zip ''0123456789'' [0, 1, 2, 3, 4, 5, 6, 7, 8, 9]) ch"

definition is_digit :: "char \<Rightarrow> bool" where
  "is_digit ch = (digit_val ch \<noteq> None)"

text \<open>
  The value of a string of decimal digits, read left to right with the value so far as
  accumulator; \<open>None\<close> when some character is not a digit. \<open>radix_val\<close> is the same for the
  digits of a radix up to 16.
\<close>

primrec digits_val :: "nat \<Rightarrow> string \<Rightarrow> nat option" where
  "digits_val acc [] = Some acc"
| "digits_val acc (ch # cs) =
     (case digit_val ch of None \<Rightarrow> None | Some d \<Rightarrow> digits_val (10 * acc + d) cs)"

definition radix_digit :: "nat \<Rightarrow> char \<Rightarrow> nat option" where
  "radix_digit radix ch =
     (case map_of (zip ''0123456789abcdefABCDEF''
                     [0, 1, 2, 3, 4, 5, 6, 7, 8, 9, 10, 11, 12, 13, 14, 15, 10, 11, 12, 13, 14, 15])
             ch of
        None \<Rightarrow> None
      | Some d \<Rightarrow> if d < radix then Some d else None)"

primrec radix_val :: "nat \<Rightarrow> nat \<Rightarrow> string \<Rightarrow> nat option" where
  "radix_val radix acc [] = Some acc"
| "radix_val radix acc (ch # cs) =
     (case radix_digit radix ch of
        None \<Rightarrow> None
      | Some d \<Rightarrow> radix_val radix (radix * acc + d) cs)"

text \<open>
  The numbers of the language are the doubles and two infinities (and \<^verbatim>\<open>NaN\<close>); a finite
  one is given by its exact value.
\<close>

datatype jsnumber = NaN | Fin rat | PosInfinity | NegInfinity

text \<open>
  The double nearest to a rational, ties to the even significand: 53 significant bits,
  least exponent \<open>-1022\<close> (below it the doubles keep the spacing of two to the power
  \<open>-1074\<close>), and infinity from two to the power \<open>1024\<close> on.
\<close>

definition ratPower :: "rat \<Rightarrow> int \<Rightarrow> rat" where
  "ratPower b k = (if k \<ge> 0 then b ^ nat k else 1 / b ^ nat (- k))"

definition floorLog2 :: "rat \<Rightarrow> int" where
  "floorLog2 a =
     (case quotient_of a of
        (p, q) \<Rightarrow> (let e0 = bitlen p - bitlen q in if ratPower 2 e0 \<le> a then e0 else e0 - 1))"

definition roundHalfEven :: "rat \<Rightarrow> int" where
  "roundHalfEven m =
     (let f = \<lfloor>m\<rfloor>;
          d = m - of_int f
      in if d < 1 / 2 then f
         else if d > 1 / 2 then f + 1
         else if even f then f else f + 1)"

definition toDouble :: "rat \<Rightarrow> jsnumber" where
  "toDouble x =
     (if x = 0 then Fin 0
      else (let a = \<bar>x\<bar>;
                e = max (floorLog2 a) (- 1022);
                ulp = ratPower 2 (e - 52);
                r = of_int (roundHalfEven (a / ulp)) * ulp
            in if r \<ge> ratPower 2 1024 then (if x < 0 then NegInfinity else PosInfinity)
               else Fin (if x < 0 then - r else r)))"

text \<open>
  \<^verbatim>\<open>Number(v)\<close>. A string is trimmed; the empty string is \<open>0\<close>; \<^verbatim>\<open>0x\<close>, \<^verbatim>\<open>0o\<close> and \<^verbatim>\<open>0b\<close>
  introduce an unsigned integer in that radix; otherwise the string is an optional sign
  followed by \<^verbatim>\<open>Infinity\<close> or by a decimal literal (digits, an optional fraction, an
  optional exponent; one of the digit runs around the point may be empty, not both).
  Everything else is \<^verbatim>\<open>NaN\<close>. The value of the literal is rounded to the nearest double.
  An array is converted through its \<^verbatim>\<open>join(',')\<close>.
\<close>

definition radixPrefix :: "string \<Rightarrow> nat option" where
  "radixPrefix t =
     (if startsWith t ''0x'' \<or> startsWith t ''0X'' then Some 16
      else if startsWith t ''0o'' \<or> startsWith t ''0O'' then Some 8
      else if startsWith t ''0b'' \<or> startsWith t ''0B'' then Some 2
      else None)"

definition signed :: "string \<Rightarrow> bool \<times> string" where
  "signed s =
     (case s of
        [] \<Rightarrow> (False, [])
      | ch # cs \<Rightarrow> if ch = CHR ''-'' then (True, cs)
                  else if ch = CHR ''+'' then (False, cs)
                  else (False, ch # cs))"

definition exponentPart :: "string \<Rightarrow> int option" where
  "exponentPart r =
     (case r of
        [] \<Rightarrow> Some 0
      | ch # cs \<Rightarrow>
          if ch = CHR ''e'' \<or> ch = CHR ''E''
          then (case signed cs of
                  (neg, ds) \<Rightarrow>
                    if ds = [] then None
                    else map_option (\<lambda>n. if neg then - int n else int n) (digits_val 0 ds))
          else None)"

definition unsignedDecimal :: "string \<Rightarrow> rat option" where
  "unsignedDecimal u =
     (let ip = takeWhile is_digit u;
          r1 = dropWhile is_digit u;
          dot = (r1 \<noteq> [] \<and> hd r1 = CHR ''.'');
          fp = (if dot then takeWhile is_digit (tl r1) else []);
          r2 = (if dot then dropWhile is_digit (tl r1) else r1)
      in if ip = [] \<and> fp = [] then None
         else case (digits_val 0 (ip @ fp), exponentPart r2) of
                (Some m, Some e) \<Rightarrow> Some (of_nat m * ratPower 10 (e - int (length fp)))
              | _ \<Rightarrow> None)"

definition str_toNumber :: "string \<Rightarrow> jsnumber" where
  "str_toNumber s =
     (let t = js_trim s in
      if t = [] then Fin 0
      else case radixPrefix t of
          Some radix \<Rightarrow>
            (if drop 2 t = [] then NaN
             else (case radix_val radix 0 (drop 2 t) of
                     Some n \<Rightarrow> toDouble (of_nat n)
                   | None \<Rightarrow> NaN))
        | None \<Rightarrow>
            (case signed t of
               (neg, u) \<Rightarrow>
                 if u = ''Infinity'' then (if neg then NegInfinity else PosInfinity)
                 else (case unsignedDecimal u of
                         Some x \<Rightarrow> toDouble (if neg then - x else x)
                       | None \<Rightarrow> NaN)))"

fun toNumber :: "jsval \<Rightarrow> jsnumber" where
  "toNumber JUndefined = NaN"
| "toNumber JNull = Fin 0"
| "toNumber (JBool b) = Fin (if b then 1 else 0)"
| "toNumber (JNum n) = Fin n"
| "toNumber (JStr s) = str_toNumber s"
| "toNumber (JArr xs) = str_toNumber (js_join '','' xs)"

text \<open>\<^verbatim>\<open>v > n\<close> for a number literal \<open>n\<close>: false when \<open>v\<close> converts to \<^verbatim>\<open>NaN\<close>.\<close>

definition js_gt :: "jsval \<Rightarrow> rat \<Rightarrow> bool" where
  "js_gt v n =
     (case toNumber v of
        NaN \<Rightarrow> False
      | Fin x \<Rightarrow> x > n
      | PosInfinity \<Rightarrow> True
      | NegInfinity \<Rightarrow> False)"

text \<open>
  What the JavaScript runtime supplies and the repository does not define: the text of a
  number (\<^verbatim>\<open>String(n)\<close>), the clock-dependent test whether a date string lies after
  ``now minus the recency threshold'', the ISO day (\<^verbatim>\<open>YYYY-MM-DD\<close>) of a date string
  (\<open>None\<close> for an invalid date), and the current instant as ISO text.
\<close>

record runtime =
  numToString :: "rat \<Rightarrow> string"
  isRecentDate :: "string \<Rightarrow> bool"
  isoDay :: "string \<Rightarrow> string option"
  nowISO :: string

text \<open>\<^verbatim>\<open>String(v)\<close>, as a template literal applies it.\<close>

fun js_String :: "runtime \<Rightarrow> jsval \<Rightarrow> string" where
  "js_String rt JUndefined = ''undefined''"
| "js_String rt JNull = ''null''"
| "js_String rt (JBool b) = (if b then ''true'' else ''false'')"
| "js_String rt (JNum n) = numToString rt n"
| "js_String rt (JStr s) = s"
| "js_String rt (JArr xs) = js_join '','' xs"

text \<open>
  \<^verbatim>\<open>toLowerCase\<close> on the ASCII letters and on the letters of the Latin-1 supplement
  (U+00C0 to U+00DE without the multiplication sign, in UTF-8 the byte C3 and a second
  byte that moves up by 32); other bytes are left as they are.
\<close>

definition lower_char :: "char \<Rightarrow> char" where
  "lower_char ch =
     (case map_of (zip ''ABCDEFGHIJKLMNOPQRSTUVWXYZ'' ''abcdefghijklmnopqrstuvwxyz'') ch of
        Some d \<Rightarrow> d
      | None \<Rightarrow> ch)"

definition lower_latin1 :: "char \<Rightarrow> char" where
  "lower_latin1 ch =
     (case map_of
             (zip [CHR 0x80, CHR 0x81, CHR 0x82, CHR 0x83, CHR 0x84, CHR 0x85, CHR 0x86, CHR 0x87,
                   CHR 0x88, CHR 0x89, CHR 0x8A, CHR 0x8B, CHR 0x8C, CHR 0x8D, CHR 0x8E, CHR 0x8F,
                   CHR 0x90, CHR 0x91, CHR 0x92, CHR 0x93, CHR 0x94, CHR 0x95, CHR 0x96,
                   CHR 0x98, CHR 0x99, CHR 0x9A, CHR 0x9B, CHR 0x9C, CHR 0x9D, CHR 0x9E]
                  [CHR 0xA0, CHR 0xA1, CHR 0xA2, CHR 0xA3, CHR 0xA4, CHR 0xA5, CHR 0xA6, CHR 0xA7,
                   CHR 0xA8, CHR 0xA9, CHR 0xAA, CHR 0xAB, CHR 0xAC, CHR 0xAD, CHR 0xAE, CHR 0xAF,
                   CHR 0xB0, CHR 0xB1, CHR 0xB2, CHR 0xB3, CHR 0xB4, CHR 0xB5, CHR 0xB6,
                   CHR 0xB8, CHR 0xB9, CHR 0xBA, CHR 0xBB, CHR 0xBC, CHR 0xBD, CHR 0xBE]) ch of
        Some d \<Rightarrow> d
      | None \<Rightarrow> ch)"

fun toLowerCase :: "string \<Rightarrow> string" where
  "toLowerCase [] = []"
| "toLowerCase [ch] = [lower_char ch]"
| "toLowerCase (ch # d # cs) =
     (if ch = CHR 0xC3 then ch # lower_latin1 d # toLowerCase cs
      else lower_char ch # toLowerCase (d # cs))"

declare toLowerCase.simps [simp del]

text \<open>\<^verbatim>\<open>text.includes(pat)\<close>\<close>

primrec str_includes :: "string \<Rightarrow> string \<Rightarrow> bool" where
  "str_includes [] pat = (pat = [])"
| "str_includes (ch # cs) pat = (startsWith (ch # cs) pat \<or> str_includes cs pat)"

text \<open>
  \<^verbatim>\<open>s.split('; ')\<close>: the token read so far is kept reversed in the accumulator.
\<close>

fun split_semi :: "string \<Rightarrow> string \<Rightarrow> string list" where
  "split_semi acc [] = [rev acc]"
| "split_semi acc [ch] = [rev (ch # acc)]"
| "split_semi acc (ch # d # cs) =
     (if ch = CHR '';'' \<and> d = CHR '' '' then rev acc # split_semi [] cs
      else split_semi (ch # acc) (d # cs))"

definition split_titles :: "string \<Rightarrow> string list" where
  "split_titles s = split_semi [] s"


section \<open>Job scraper fallback (\<^verbatim>\<open>modules/job-scraper-fallback.js\<close>)\<close>

text \<open>The role dictionaries of the constructor; \<^verbatim>\<open>e\<close> with acute accent is the bytes C3 A9.\<close>

definition salesPatterns :: "string list" where
  "salesPatterns =
     [''sales'', ''account executive'', ''account manager'', ''commercial'', ''ae'', ''am'',
      ''business development representative'', ''bdr'', ''sdr'', ''sales development'',
      ''revenue'', ''hunter'', ''closer'', ''sales rep'', ''territory manager'',
      ''inside sales'', ''outside sales'', ''field sales'', ''enterprise sales'',
      ''vendeur'', ''vente'', ''responsable commercial'',
      ''charg'' @ [CHR 0xC3, CHR 0xA9] @ '' commercial'']"

definition marketingPatterns :: "string list" where
  "marketingPatterns =
     [''marketing'', ''growth'', ''demand gen'', ''content'', ''brand'', ''digital marketing'',
      ''product marketing'', ''pmm'', ''seo'', ''sem'', ''social media'', ''campaign'',
      ''marketing manager'', ''marketing director'', ''brand manager'', ''content manager'',
      ''growth marketing'', ''performance marketing'', ''martech'', ''webmarketing'']"

definition bdPatterns :: "string list" where
  "bdPatterns =
     [''business development'', ''bd manager'', ''biz dev'', ''bizdev'', ''partnership'',
      ''strategic partnership'', ''alliance manager'', ''channel manager'',
      ''corporate development'', ''corp dev'',
      ''d'' @ [CHR 0xC3, CHR 0xA9] @ ''veloppement commercial'',
      ''business development manager'', ''partner development'']"

definition matchesRolePattern :: "string \<Rightarrow> string list \<Rightarrow> bool" where
  "matchesRolePattern text patterns = list_ex (\<lambda>pattern. str_includes text pattern) patterns"

text \<open>
  What one scraping method returns:
  \<^verbatim>\<open>{ found, titles, hasSales, hasMarketing, hasBD }\<close>.
\<close>

record job_tier =
  found :: bool
  titles :: "string list"
  hasSales :: bool
  hasMarketing :: bool
  hasBD :: bool

text \<open>The \<^verbatim>\<open>results\<close> object of \<^verbatim>\<open>findJobOpenings\<close>.\<close>

record job_fallback =
  found :: bool
  sources :: "string list"
  jobTitles :: "string list"
  hasSales :: bool
  hasMarketing :: bool
  hasBD :: bool
  confidence :: rat

text \<open>
  The two methods that fetch pages (\<^verbatim>\<open>scrapeCareerPage\<close>, \<^verbatim>\<open>scrapeLinkedInPublic\<close>) catch
  every error themselves and always return a result object; what they return for a
  company is given by the outside world.
\<close>

record job_web =
  scrapeCareerPage :: job_tier
  scrapeLinkedInPublic :: job_tier

definition simulateGoogleResults :: "runtime \<Rightarrow> company \<Rightarrow> string list" where
  "simulateGoogleResults rt c =
     (if js_gt (readProp c ''employee_count'') 20
      then [js_String rt (readProp c ''name'') @ '' is hiring new team members''] else [])
     @ (if readProp c ''has_funding_data'' = JStr ''true''
        then [''Join the growing team at '' @ js_String rt (readProp c ''name'')] else [])"

definition searchGoogleHiring :: "runtime \<Rightarrow> company \<Rightarrow> job_tier" where
  "searchGoogleHiring rt c =
     (let mockHiringSignals = simulateGoogleResults rt c in
      if length mockHiringSignals > 0
      then \<lparr> job_tier.found = True,
             titles = mockHiringSignals,
             job_tier.hasSales =
               list_ex (\<lambda>title. matchesRolePattern (toLowerCase title) salesPatterns) mockHiringSignals,
             job_tier.hasMarketing =
               list_ex (\<lambda>title. matchesRolePattern (toLowerCase title) marketingPatterns) mockHiringSignals,
             job_tier.hasBD =
               list_ex (\<lambda>title. matchesRolePattern (toLowerCase title) bdPatterns) mockHiringSignals \<rparr>
      else \<lparr> job_tier.found = False, titles = [], job_tier.hasSales = False,
             job_tier.hasMarketing = False, job_tier.hasBD = False \<rparr>)"

text \<open>\<^verbatim>\<open>weights[source] || 0\<close>\<close>

definition jobWeight :: "string \<Rightarrow> rat" where
  "jobWeight source =
     (case map_of [(''career_page'', 5 / 10), (''linkedin_public'', 3 / 10),
                   (''google_search'', 2 / 10)] source of
        Some w \<Rightarrow> w
      | None \<Rightarrow> 0)"

definition calculateJobConfidence :: "string list \<Rightarrow> rat" where
  "calculateJobConfidence srcs = foldl (\<lambda>score source. score + jobWeight source) 0 srcs"

text \<open>
  The block repeated after each method of \<^verbatim>\<open>findJobOpenings\<close>: when the method found
  something, push its label and titles and or its flags into the results.
\<close>

definition addJobSource :: "string \<Rightarrow> job_tier \<Rightarrow> job_fallback \<Rightarrow> job_fallback" where
  "addJobSource label d r =
     (if job_tier.found d
      then r \<lparr> sources := sources r @ [label],
               jobTitles := jobTitles r @ titles d,
               hasSales := hasSales r \<or> job_tier.hasSales d,
               hasMarketing := hasMarketing r \<or> job_tier.hasMarketing d,
               hasBD := hasBD r \<or> job_tier.hasBD d \<rparr>
      else r)"

definition emptyJobFallback :: job_fallback where
  "emptyJobFallback =
     \<lparr> found = False, sources = [], jobTitles = [], hasSales = False,
       hasMarketing = False, hasBD = False, confidence = 0 \<rparr>"

definition findJobOpenings :: "runtime \<Rightarrow> job_web \<Rightarrow> company \<Rightarrow> job_fallback" where
  "findJobOpenings rt web c =
     (let r0 = emptyJobFallback;
          r1 = (if truthy (readProp c ''website'')
                then addJobSource ''career_page'' (scrapeCareerPage web) r0 else r0);
          r2 = addJobSource ''google_search'' (searchGoogleHiring rt c) r1;
          r3 = (if truthy (js_or (readProp c ''linkedin_url'') (readProp c ''linkedin''))
                then addJobSource ''linkedin_public'' (scrapeLinkedInPublic web) r2 else r2)
      in r3 \<lparr> found := length (sources r3) > 0,
              confidence := calculateJobConfidence (sources r3) \<rparr>)"



section \<open>Enhanced job analyzer (\<^verbatim>\<open>modules/job-analyzer-enhanced.js\<close>)\<close>

text \<open>
  A job of the API response. \<open>title\<close> is empty when the posting has none.
  \<open>recent\<close> is the verdict of \<^verbatim>\<open>isJobRecent(job.listedAt)\<close> under the configured
  threshold and \<open>veryRecent\<close> the verdict of the filter inside
  \<^verbatim>\<open>calculateHiringUrgency\<close>; both only read \<^verbatim>\<open>listedAt\<close>.
\<close>

record job =
  title :: string
  listedAt :: string
  recent :: bool
  veryRecent :: bool

text \<open>
  A thrown error: the status of \<^verbatim>\<open>error.response\<close> when the error carries a response, and
  \<^verbatim>\<open>error.message\<close>. An HTTP exchange is the payload or such a failure.
\<close>

datatype js_error = JsError "nat option" string

datatype 'a response = Ok 'a | Fail "nat option" string

fun errorStatus :: "js_error \<Rightarrow> nat option" where
  "errorStatus (JsError st msg) = st"

fun errorMessage :: "js_error \<Rightarrow> string" where
  "errorMessage (JsError st msg) = msg"

record roleAnalysis =
  hasSales :: bool
  hasMarketing :: bool
  hasBusinessDevelopment :: bool
  titles :: "string list"

definition analyzeJobRoles :: "job list \<Rightarrow> roleAnalysis" where
  "analyzeJobRoles jobs =
     \<lparr> hasSales = list_ex (\<lambda>j. matchesRolePattern (toLowerCase (title j)) salesPatterns) jobs,
       hasMarketing = list_ex (\<lambda>j. matchesRolePattern (toLowerCase (title j)) marketingPatterns) jobs,
       hasBusinessDevelopment = list_ex (\<lambda>j. matchesRolePattern (toLowerCase (title j)) bdPatterns) jobs,
       titles = map title jobs \<rparr>"

definition calculateHiringUrgency :: "job list \<Rightarrow> string" where
  "calculateHiringUrgency recentJobs =
     (if length recentJobs = 0 then ''None''
      else let veryRecentJobs = filter veryRecent recentJobs in
        if length veryRecentJobs > 2 then ''High''
        else if length veryRecentJobs > 0 then ''Moderate''
        else if length recentJobs > 0 then ''Low''
        else ''None'')"

text \<open>The object \<^verbatim>\<open>getJobData\<close> returns.\<close>

record jobData =
  api_success :: bool
  has_recent_jobs :: bool
  has_sales_jobs :: bool
  has_marketing_jobs :: bool
  has_bd_jobs :: bool
  recent_job_titles :: string
  job_posting_dates :: string
  recent_job_count :: nat
  hiring_urgency :: string
  data_sources :: "string list"
  confidence :: rat

text \<open>The object literal built from a successful response (the same in both branches).\<close>

definition jobDataOf :: "job list \<Rightarrow> jobData" where
  "jobDataOf allJobs =
     (let recentJobs = filter recent allJobs;
          ra = analyzeJobRoles recentJobs
      in \<lparr> api_success = True,
           has_recent_jobs = (roleAnalysis.hasSales ra \<or> roleAnalysis.hasMarketing ra
                              \<or> hasBusinessDevelopment ra),
           has_sales_jobs = roleAnalysis.hasSales ra,
           has_marketing_jobs = roleAnalysis.hasMarketing ra,
           has_bd_jobs = hasBusinessDevelopment ra,
           recent_job_titles = js_join ''; '' (take 5 (roleAnalysis.titles ra)),
           job_posting_dates = js_join '', '' (map listedAt (take 3 recentJobs)),
           recent_job_count = length recentJobs,
           hiring_urgency = calculateHiringUrgency recentJobs,
           data_sources = [''linkedin_api''],
           confidence = 8 / 10 \<rparr>)"

text \<open>
  \<^verbatim>\<open>getJobData\<close> consumes the upcoming HTTP exchanges of the primary API in order and
  returns the ones it left. A status 400 is answered by one more request with the other
  parameter name; an error of that second request leaves the function as it is. When no
  exchange is left the request fails without a response. Errors raised while the
  response is read are failures without a response as well.
\<close>

definition request :: "'a response list \<Rightarrow> 'a response \<times> 'a response list" where
  "request rs = (case rs of [] \<Rightarrow> (Fail None ''Network Error'', []) | r # rest \<Rightarrow> (r, rest))"

definition getJobData ::
  "company \<Rightarrow> job list response list \<Rightarrow> (js_error + jobData) \<times> job list response list" where
  "getJobData c rs =
     (if \<not> truthy (readProp c ''linkedin_url'') \<and> \<not> truthy (readProp c ''linkedin'')
      then (Inl (JsError None ''No LinkedIn URL available for job analysis''), rs)
      else case request rs of
          (Ok allJobs, rs1) \<Rightarrow> (Inr (jobDataOf allJobs), rs1)
        | (Fail st msg, rs1) \<Rightarrow>
            if st = Some 400
            then (case request rs1 of
                    (Ok allJobs, rs2) \<Rightarrow> (Inr (jobDataOf allJobs), rs2)
                  | (Fail st2 msg2, rs2) \<Rightarrow> (Inl (JsError st2 msg2), rs2))
            else (Inl (JsError st msg), rs1))"

function getJobDataWithRetry ::
  "company \<Rightarrow> job list response list \<Rightarrow> nat \<Rightarrow> (js_error + jobData) \<times> job list response list" where
  "getJobDataWithRetry c rs retryCount =
     (case getJobData c rs of
        (Inr d, rs1) \<Rightarrow> (Inr d, rs1)
      | (Inl e, rs1) \<Rightarrow>
          if errorStatus e = Some 429 \<and> retryCount < 3
          then getJobDataWithRetry c rs1 (retryCount + 1)
          else (Inl e, rs1))"
  by pat_completeness auto
termination
  by (relation "measure (\<lambda>(c, rs, retryCount). 3 - retryCount)") auto

declare getJobDataWithRetry.simps [simp del]

definition shouldUseFallback_jobs :: "jobData \<Rightarrow> company \<Rightarrow> bool" where
  "shouldUseFallback_jobs primaryData c =
     (if \<not> api_success primaryData then True
      else if recent_job_count primaryData = 0 \<and> js_gt (readProp c ''employee_count'') 20 then True
      else if recent_job_count primaryData < 2 \<and> js_gt (readProp c ''employee_count'') 50 then True
      else False)"

definition mergeFallbackData_jobs :: "jobData \<Rightarrow> job_fallback \<Rightarrow> jobData" where
  "mergeFallbackData_jobs primaryData fallbackData =
     (let sales = has_sales_jobs primaryData \<or> job_fallback.hasSales fallbackData;
          marketing = has_marketing_jobs primaryData \<or> job_fallback.hasMarketing fallbackData;
          bd = has_bd_jobs primaryData \<or> job_fallback.hasBD fallbackData;
          allTitles = (if recent_job_titles primaryData \<noteq> []
                       then split_titles (recent_job_titles primaryData) else [])
                      @ jobTitles fallbackData
      in primaryData
           \<lparr> data_sources := data_sources primaryData @ sources fallbackData,
             has_sales_jobs := sales,
             has_marketing_jobs := marketing,
             has_bd_jobs := bd,
             has_recent_jobs := (sales \<or> marketing \<or> bd),
             recent_job_titles := js_join ''; '' (take 5 allTitles),
             confidence := (confidence primaryData + job_fallback.confidence fallbackData) / 2 \<rparr>)"

text \<open>The outside world of one company in the jobs stage.\<close>

record job_world =
  jobApi :: "job list response list"
  jobWeb :: job_web

text \<open>The ten assignments at the end of the \<^verbatim>\<open>try\<close> block of \<^verbatim>\<open>process\<close>.\<close>

definition jobFields :: "jobData \<Rightarrow> (string \<times> jsval) list" where
  "jobFields d =
     [(''has_recent_jobs'', JBool (has_recent_jobs d)),
      (''has_sales_jobs'', JBool (has_sales_jobs d)),
      (''has_marketing_jobs'', JBool (has_marketing_jobs d)),
      (''has_bd_jobs'', JBool (has_bd_jobs d)),
      (''recent_job_titles'', JStr (recent_job_titles d)),
      (''job_posting_dates'', JStr (job_posting_dates d)),
      (''recent_job_count'', JNum (of_nat (recent_job_count d))),
      (''hiring_urgency'', JStr (hiring_urgency d)),
      (''job_data_sources'', JArr (data_sources d)),
      (''job_confidence'', JNum (confidence d))]"

text \<open>The assignments of the \<^verbatim>\<open>catch\<close> block.\<close>

definition jobDefaults :: "(string \<times> jsval) list" where
  "jobDefaults =
     [(''has_recent_jobs'', JBool False),
      (''has_sales_jobs'', JBool False),
      (''has_marketing_jobs'', JBool False),
      (''has_bd_jobs'', JBool False),
      (''recent_job_titles'', JStr []),
      (''job_posting_dates'', JStr []),
      (''recent_job_count'', JNum 0),
      (''hiring_urgency'', JStr ''None''),
      (''job_data_sources'', JStr []),
      (''job_confidence'', JNum 0)]"

text \<open>A run of assignments \<^verbatim>\<open>company.k = v\<close>, first to last.\<close>

definition assignAll :: "(string \<times> jsval) list \<Rightarrow> company \<Rightarrow> company" where
  "assignAll kvs c = foldl (\<lambda>acc (k, v). assign k v acc) c kvs"

text \<open>
  The fused job data of one company: the primary result, merged with the fallback result
  when \<^verbatim>\<open>shouldUseFallback\<close> asks for it and the fallback found something. An error of
  the primary call leaves the \<^verbatim>\<open>try\<close> block.
\<close>

definition fuseJobs :: "runtime \<Rightarrow> job_world \<Rightarrow> company \<Rightarrow> js_error + jobData" where
  "fuseJobs rt w c =
     (case fst (getJobDataWithRetry c (jobApi w) 0) of
        Inl e \<Rightarrow> Inl e
      | Inr d \<Rightarrow>
          if shouldUseFallback_jobs d c
          then (let fallbackData = findJobOpenings rt (jobWeb w) c in
                if job_fallback.found fallbackData
                then Inr (mergeFallbackData_jobs d fallbackData)
                else Inr d)
          else Inr d)"


definition processJobCompany :: "runtime \<Rightarrow> job_world \<Rightarrow> company \<Rightarrow> company" where
  "processJobCompany rt w c =
     (case fuseJobs rt w c of
        Inr d \<Rightarrow> assignAll (jobFields d) c
      | Inl e \<Rightarrow> assignAll jobDefaults c)"

text \<open>
  \<^verbatim>\<open>process\<close>: the companies in input order, each against its own outside world. The
  counters of the summary and the pauses are not part of the model.
\<close>

definition processJobs :: "runtime \<Rightarrow> (company \<Rightarrow> job_world) \<Rightarrow> company list \<Rightarrow> company list" where
  "processJobs rt world companies = map (\<lambda>c. processJobCompany rt (world c) c) companies"

section \<open>Funding scraper fallback (\<^verbatim>\<open>modules/funding-scraper-fallback.js\<close>)\<close>

text \<open>A funding round as the scrapers build it, and one entry of the details list.\<close>

record fundingRound =
  amount :: string
  type :: string
  date :: string
  raw :: string

record detail =
  source :: string
  dtext :: string
  ddate :: string

text \<open>What one scraping method returns: \<^verbatim>\<open>{ found, rounds, details }\<close>.\<close>

record funding_tier =
  found :: bool
  rounds :: "fundingRound list"
  details :: "detail list"

text \<open>The \<^verbatim>\<open>results\<close> object of \<^verbatim>\<open>findFundingData\<close>.\<close>

record funding_fallback =
  found :: bool
  sources :: "string list"
  fundingRounds :: "fundingRound list"
  recentFunding :: bool
  totalAmount :: string
  lastFundingDate :: string
  confidence :: rat
  details :: "detail list"

text \<open>The two page-fetching methods, as for the jobs.\<close>

record funding_web =
  scrapePressReleases :: funding_tier
  scrapeLinkedInFunding :: funding_tier

definition simulateFundingNews :: "runtime \<Rightarrow> company \<Rightarrow> fundingRound list" where
  "simulateFundingNews rt c =
     (if js_gt (readProp c ''employee_count'') 50 \<and> readProp c ''has_funding_data'' \<noteq> JStr ''true''
      then [\<lparr> amount = ''$2.5M'', type = ''seed'', date = ''2024-06-15'',
              raw = js_String rt (readProp c ''name'') @ '' raises $2.5M seed round'' \<rparr>]
      else [])
     @ (if js_gt (readProp c ''employee_count'') 100
        then [\<lparr> amount = ''$10M'', type = ''series a'', date = ''2023-11-20'',
                raw = js_String rt (readProp c ''name'') @ '' secures $10M Series A'' \<rparr>]
        else [])"

definition searchFundingNews :: "runtime \<Rightarrow> company \<Rightarrow> funding_tier" where
  "searchFundingNews rt c =
     (let mockFundingNews = simulateFundingNews rt c in
      if length mockFundingNews > 0
      then \<lparr> funding_tier.found = True,
             rounds = mockFundingNews,
             funding_tier.details =
               map (\<lambda>round. \<lparr> source = ''news_search'',
                               dtext = js_String rt (readProp c ''name'') @ '' funding news'',
                               ddate = date round \<rparr>) mockFundingNews \<rparr>
      else \<lparr> funding_tier.found = False, rounds = [], funding_tier.details = [] \<rparr>)"

text \<open>\<^verbatim>\<open>new Date(round.date) > thresholdDate\<close> for some round.\<close>

definition hasRecentFunding_fb :: "runtime \<Rightarrow> fundingRound list \<Rightarrow> bool" where
  "hasRecentFunding_fb rt rs = list_ex (\<lambda>round. isRecentDate rt (date round)) rs"

definition calculateTotalFunding_fb :: "fundingRound list \<Rightarrow> string" where
  "calculateTotalFunding_fb rs =
     (let amounts = filter (\<lambda>a. a \<noteq> []) (map amount rs) in
      if length amounts > 0 then js_join '', '' amounts else [])"

text \<open>
  The valid dates, latest first, and the ISO day of the first: for days written
  \<^verbatim>\<open>YYYY-MM-DD\<close> the latest one is the greatest in string order.
\<close>

definition latestDay :: "string list \<Rightarrow> string" where
  "latestDay days = (if days = [] then [] else last (sort days))"

definition getLastFundingDate_fb :: "runtime \<Rightarrow> fundingRound list \<Rightarrow> string" where
  "getLastFundingDate_fb rt rs = latestDay (List.map_filter (\<lambda>round. isoDay rt (date round)) rs)"

definition fundingWeight :: "string \<Rightarrow> rat" where
  "fundingWeight src =
     (case map_of [(''press_releases'', 5 / 10), (''linkedin_announcements'', 3 / 10),
                   (''news_search'', 2 / 10)] src of
        Some w \<Rightarrow> w
      | None \<Rightarrow> 0)"

definition calculateFundingConfidence :: "string list \<Rightarrow> rat" where
  "calculateFundingConfidence srcs = foldl (\<lambda>score src. score + fundingWeight src) 0 srcs"

definition addFundingSource :: "string \<Rightarrow> funding_tier \<Rightarrow> funding_fallback \<Rightarrow> funding_fallback" where
  "addFundingSource label d r =
     (if funding_tier.found d
      then r \<lparr> sources := sources r @ [label],
               fundingRounds := fundingRounds r @ rounds d,
               details := details r @ funding_tier.details d \<rparr>
      else r)"

definition emptyFundingFallback :: funding_fallback where
  "emptyFundingFallback =
     \<lparr> found = False, sources = [], fundingRounds = [], recentFunding = False,
       totalAmount = [], lastFundingDate = [], confidence = 0, details = [] \<rparr>"

definition findFundingData :: "runtime \<Rightarrow> funding_web \<Rightarrow> company \<Rightarrow> funding_fallback" where
  "findFundingData rt web c =
     (let r0 = emptyFundingFallback;
          r1 = (if truthy (readProp c ''website'')
                then addFundingSource ''press_releases'' (scrapePressReleases web) r0 else r0);
          r2 = addFundingSource ''news_search'' (searchFundingNews rt c) r1;
          r3 = (if truthy (js_or (readProp c ''linkedin_url'') (readProp c ''linkedin''))
                then addFundingSource ''linkedin_announcements'' (scrapeLinkedInFunding web) r2
                else r2);
          r4 = (if length (fundingRounds r3) > 0
                then r3 \<lparr> found := True,
                          recentFunding := hasRecentFunding_fb rt (fundingRounds r3),
                          totalAmount := calculateTotalFunding_fb (fundingRounds r3),
                          lastFundingDate := getLastFundingDate_fb rt (fundingRounds r3) \<rparr>
                else r3)
      in r4 \<lparr> confidence := calculateFundingConfidence (sources r4) \<rparr>)"



section \<open>Enhanced funding analyzer (\<^verbatim>\<open>modules/funding-analyzer-enhanced.js\<close>)\<close>

text \<open>
  A funding round of the API response (an absent property is the empty string) and the
  \<^verbatim>\<open>crunchbase\<close> object that carries the rounds.
\<close>

record apiRound =
  funding_type :: string
  investment_type :: string
  money_raised :: string
  amount :: string
  announced_on :: string
  date :: string

record crunchbase =
  funding_rounds :: "apiRound list"
  crunchbase_url :: string

text \<open>\<^verbatim>\<open>a || b\<close> on strings.\<close>

definition str_or :: "string \<Rightarrow> string \<Rightarrow> string" where
  "str_or a b = (if a \<noteq> [] then a else b)"

definition hasRecentFunding :: "runtime \<Rightarrow> apiRound list \<Rightarrow> bool" where
  "hasRecentFunding rt apiRounds =
     (if length apiRounds = 0 then False
      else list_ex (\<lambda>rnd. let d = str_or (announced_on rnd) (apiRound.date rnd) in
                              isoDay rt d \<noteq> None \<and> isRecentDate rt d) apiRounds)"

definition formatRound :: "apiRound \<Rightarrow> string" where
  "formatRound rnd =
     (let ty = str_or (funding_type rnd) (str_or (investment_type rnd) ''funding'');
          amt = str_or (money_raised rnd) (apiRound.amount rnd);
          dt = str_or (announced_on rnd) (apiRound.date rnd)
      in ty @ (if amt \<noteq> [] then '': '' @ amt else [])
            @ (if dt \<noteq> [] then '' ('' @ dt @ '')'' else []))"

definition formatFundingDetails :: "apiRound list \<Rightarrow> string" where
  "formatFundingDetails apiRounds =
     (if length apiRounds = 0 then []
      else js_join '' | '' (map formatRound (take 3 apiRounds)))"

definition getLastFundingDate :: "runtime \<Rightarrow> apiRound list \<Rightarrow> string" where
  "getLastFundingDate rt apiRounds =
     (if length apiRounds = 0 then []
      else latestDay
             (List.map_filter (isoDay rt)
                (filter (\<lambda>d. d \<noteq> [])
                   (map (\<lambda>rnd. str_or (announced_on rnd) (apiRound.date rnd)) apiRounds))))"

definition calculateTotalFunding :: "apiRound list \<Rightarrow> string" where
  "calculateTotalFunding apiRounds =
     (let amounts = filter (\<lambda>a. a \<noteq> [])
                      (map (\<lambda>rnd. str_or (money_raised rnd) (apiRound.amount rnd)) apiRounds)
      in if length amounts = 0 then [] else js_join '' + '' amounts)"

text \<open>The object \<^verbatim>\<open>getFundingData\<close> returns.\<close>

record fundingData =
  api_success :: bool
  has_funding_data :: bool
  has_recent_funding_1yr :: bool
  funding_details :: string
  last_funding_date :: string
  crunchbase_url :: string
  funding_rounds :: string
  total_funding :: string
  data_sources :: "string list"
  confidence :: rat

definition fundingDataOf :: "runtime \<Rightarrow> crunchbase \<Rightarrow> fundingData" where
  "fundingDataOf rt crunchbaseData =
     (let apiRounds = crunchbase.funding_rounds crunchbaseData in
      \<lparr> api_success = True,
        has_funding_data = (length apiRounds > 0),
        has_recent_funding_1yr = hasRecentFunding rt apiRounds,
        funding_details = formatFundingDetails apiRounds,
        last_funding_date = getLastFundingDate rt apiRounds,
        crunchbase_url = crunchbase.crunchbase_url crunchbaseData,
        funding_rounds = numToString rt (of_nat (length apiRounds)),
        total_funding = calculateTotalFunding apiRounds,
        data_sources = [''linkedin_api''],
        confidence = 8 / 10 \<rparr>)"

definition getFundingData ::
  "runtime \<Rightarrow> company \<Rightarrow> crunchbase response list
     \<Rightarrow> (js_error + fundingData) \<times> crunchbase response list" where
  "getFundingData rt c rs =
     (if \<not> truthy (readProp c ''linkedin_url'') \<and> \<not> truthy (readProp c ''linkedin'')
      then (Inl (JsError None ''No LinkedIn URL available for funding analysis''), rs)
      else case request rs of
          (Ok cb, rs1) \<Rightarrow> (Inr (fundingDataOf rt cb), rs1)
        | (Fail st msg, rs1) \<Rightarrow>
            if st = Some 400
            then (case request rs1 of
                    (Ok cb, rs2) \<Rightarrow> (Inr (fundingDataOf rt cb), rs2)
                  | (Fail st2 msg2, rs2) \<Rightarrow> (Inl (JsError st2 msg2), rs2))
            else (Inl (JsError st msg), rs1))"

function getFundingDataWithRetry ::
  "runtime \<Rightarrow> company \<Rightarrow> crunchbase response list \<Rightarrow> nat
     \<Rightarrow> (js_error + fundingData) \<times> crunchbase response list" where
  "getFundingDataWithRetry rt c rs retryCount =
     (case getFundingData rt c rs of
        (Inr d, rs1) \<Rightarrow> (Inr d, rs1)
      | (Inl e, rs1) \<Rightarrow>
          if errorStatus e = Some 429 \<and> retryCount < 3
          then getFundingDataWithRetry rt c rs1 (retryCount + 1)
          else (Inl e, rs1))"
  by pat_completeness auto
termination
  by (relation "measure (\<lambda>(rt, c, rs, retryCount). 3 - retryCount)") auto

declare getFundingDataWithRetry.simps [simp del]

definition shouldUseFallback_funding :: "fundingData \<Rightarrow> company \<Rightarrow> bool" where
  "shouldUseFallback_funding primaryData c =
     (if \<not> api_success primaryData then True
      else if \<not> has_funding_data primaryData \<and> js_gt (readProp c ''employee_count'') 50 then True
      else if \<not> has_recent_funding_1yr primaryData \<and> js_gt (readProp c ''employee_count'') 100
        then True
      else False)"

definition mergeFallbackData_funding :: "fundingData \<Rightarrow> funding_fallback \<Rightarrow> fundingData" where
  "mergeFallbackData_funding primaryData fallbackData =
     (let primaryDetails = (if funding_details primaryData \<noteq> []
                            then [funding_details primaryData] else []);
          fallbackDetails = map (\<lambda>d. dtext d @ '' ('' @ source d @ '')'')
                              (funding_fallback.details fallbackData);
          allDetails = primaryDetails @ fallbackDetails
      in primaryData
           \<lparr> data_sources := data_sources primaryData @ funding_fallback.sources fallbackData,
             has_funding_data := (has_funding_data primaryData \<or> funding_fallback.found fallbackData),
             has_recent_funding_1yr :=
               (has_recent_funding_1yr primaryData \<or> recentFunding fallbackData),
             funding_details := js_join '' | '' (take 3 allDetails),
             last_funding_date :=
               (if lastFundingDate fallbackData \<noteq> []
                   \<and> (last_funding_date primaryData = []
                        \<or> lastFundingDate fallbackData > last_funding_date primaryData)
                then lastFundingDate fallbackData
                else last_funding_date primaryData),
             total_funding :=
               (if totalAmount fallbackData \<noteq> [] \<and> total_funding primaryData = []
                then totalAmount fallbackData
                else total_funding primaryData),
             confidence :=
               (confidence primaryData + funding_fallback.confidence fallbackData) / 2 \<rparr>)"

record funding_world =
  fundingApi :: "crunchbase response list"
  fundingWeb :: funding_web

definition fundingFields :: "fundingData \<Rightarrow> (string \<times> jsval) list" where
  "fundingFields d =
     [(''has_funding_data'', JBool (has_funding_data d)),
      (''has_recent_funding_1yr'', JBool (has_recent_funding_1yr d)),
      (''funding_details'', JStr (funding_details d)),
      (''last_funding_date'', JStr (last_funding_date d)),
      (''crunchbase_url'', JStr (crunchbase_url d)),
      (''funding_rounds'', JStr (funding_rounds d)),
      (''total_funding'', JStr (total_funding d)),
      (''funding_data_sources'', JArr (data_sources d)),
      (''funding_confidence'', JNum (confidence d))]"

definition fundingDefaults :: "(string \<times> jsval) list" where
  "fundingDefaults =
     [(''has_funding_data'', JBool False),
      (''has_recent_funding_1yr'', JBool False),
      (''funding_details'', JStr []),
      (''last_funding_date'', JStr []),
      (''crunchbase_url'', JStr []),
      (''funding_rounds'', JStr []),
      (''total_funding'', JStr []),
      (''funding_data_sources'', JStr []),
      (''funding_confidence'', JNum 0)]"

definition fuseFunding :: "runtime \<Rightarrow> funding_world \<Rightarrow> company \<Rightarrow> js_error + fundingData" where
  "fuseFunding rt w c =
     (case fst (getFundingDataWithRetry rt c (fundingApi w) 0) of
        Inl e \<Rightarrow> Inl e
      | Inr d \<Rightarrow>
          if shouldUseFallback_funding d c
          then (let fallbackData = findFundingData rt (fundingWeb w) c in
                if funding_fallback.found fallbackData
                then Inr (mergeFallbackData_funding d fallbackData)
                else Inr d)
          else Inr d)"


definition processFundingCompany :: "runtime \<Rightarrow> funding_world \<Rightarrow> company \<Rightarrow> company" where
  "processFundingCompany rt w c =
     (case fuseFunding rt w c of
        Inr d \<Rightarrow> assignAll (fundingFields d) c
      | Inl e \<Rightarrow> assignAll fundingDefaults c)"

definition processFunding ::
  "runtime \<Rightarrow> (company \<Rightarrow> funding_world) \<Rightarrow> company list \<Rightarrow> company list" where
  "processFunding rt world companies = map (\<lambda>c. processFundingCompany rt (world c) c) companies"

section \<open>Employee analyzer (\<^verbatim>\<open>modules/employee-analyzer.js\<close>)\<close>

text \<open>
  \<^verbatim>\<open>parseInt\<close> of a string: leading white space, an optional sign, an optional \<^verbatim>\<open>0x\<close> that
  makes the radix 16, and the longest run of digits of the radix; \<open>None\<close> is \<^verbatim>\<open>NaN\<close>.
  The integer is kept exact: the double it is rounded to stands in the same order to
  every integer below two to the power 53, and the result is only compared with the
  bounds of the target range. \<^verbatim>\<open>parseInt(v)\<close> first converts \<open>v\<close> to a string.
\<close>

definition parseInt_str :: "string \<Rightarrow> int option" where
  "parseInt_str s =
     (case signed (trimStart s) of
        (neg, s2) \<Rightarrow>
          (let hex = (startsWith s2 ''0x'' \<or> startsWith s2 ''0X'');
               radix = (if hex then 16 else 10);
               ds = takeWhile (\<lambda>ch. radix_digit radix ch \<noteq> None) (if hex then drop 2 s2 else s2)
           in if ds = [] then None
              else map_option (\<lambda>n. if neg then - int n else int n) (radix_val radix 0 ds)))"

definition parseInt :: "runtime \<Rightarrow> jsval \<Rightarrow> int option" where
  "parseInt rt v = parseInt_str (js_String rt v)"

text \<open>
  \<^verbatim>\<open>s.match(/(\d+)-(\d+)/)\<close>: the two numbers of the leftmost place where a run of digits,
  a hyphen and a digit follow each other.
\<close>

fun rangeMatch :: "string \<Rightarrow> (nat \<times> nat) option" where
  "rangeMatch [] = None"
| "rangeMatch (ch # cs) =
     (let ds = takeWhile is_digit (ch # cs);
          rest = dropWhile is_digit (ch # cs);
          es = takeWhile is_digit (tl rest)
      in if ds \<noteq> [] \<and> rest \<noteq> [] \<and> hd rest = CHR ''-'' \<and> es \<noteq> []
         then (case (digits_val 0 ds, digits_val 0 es) of
                 (Some a, Some b) \<Rightarrow> Some (a, b)
               | _ \<Rightarrow> rangeMatch cs)
         else rangeMatch cs)"

text \<open>\<^verbatim>\<open>config.target_range\<close>\<close>

record target_range =
  range_min :: int
  range_max :: int

text \<open>
  The properties of the API's \<^verbatim>\<open>data\<close> object that the module reads;
  \<^verbatim>\<open>employeeCountRange\<close> is a string or an object with \<^verbatim>\<open>start\<close> and \<^verbatim>\<open>end\<close>.
\<close>

datatype countRange = NoRange | RangeText string | RangeObject jsval jsval

record employeeApiData =
  employeeCount :: jsval
  employee_count :: jsval
  employeesCount :: jsval
  employeeCountRange :: countRange
  employee_range :: jsval
  employeeRange :: jsval
  employeesOnLinkedIn :: jsval

definition extractEmployeeCount :: "employeeApiData \<Rightarrow> jsval" where
  "extractEmployeeCount data =
     js_or (employeeCount data) (js_or (employee_count data) (js_or (employeesCount data) JNull))"

definition extractEmployeeRange :: "runtime \<Rightarrow> employeeApiData \<Rightarrow> jsval" where
  "extractEmployeeRange rt data =
     (let other = js_or (employee_range data) (js_or (employeeRange data) JNull) in
      case employeeCountRange data of
        NoRange \<Rightarrow> other
      | RangeText s \<Rightarrow> if s \<noteq> [] then JStr s else other
      | RangeObject st en \<Rightarrow>
          if truthy st \<and> truthy en then JStr (js_String rt st @ ''-'' @ js_String rt en)
          else other)"

text \<open>
  The second pattern of the source, \<^verbatim>\<open>/(\d+)-(\d+)\s*employees?/i\<close>, is tried only after
  the first one failed and can match only where the first one does, so that branch
  returns nothing but the final \<^verbatim>\<open>false\<close>.
\<close>

definition isInTargetRange :: "target_range \<Rightarrow> runtime \<Rightarrow> jsval \<Rightarrow> jsval \<Rightarrow> bool" where
  "isInTargetRange cfg rt employeeCnt employeeRng =
     (case (if truthy employeeCnt then parseInt rt employeeCnt else None) of
        Some cnt \<Rightarrow> cnt \<ge> range_min cfg \<and> cnt \<le> range_max cfg
      | None \<Rightarrow>
          (case employeeRng of
             JStr s \<Rightarrow>
               (case (if s \<noteq> [] then rangeMatch s else None) of
                  Some (rangeStart, rangeEnd) \<Rightarrow>
                    int rangeStart \<le> range_max cfg \<and> int rangeEnd \<ge> range_min cfg
                | None \<Rightarrow> False)
           | _ \<Rightarrow> False))"

definition generateEvidence :: "runtime \<Rightarrow> jsval \<Rightarrow> jsval \<Rightarrow> employeeApiData \<Rightarrow> string" where
  "generateEvidence rt employeeCnt employeeRng rawData =
     js_join '' | ''
       ((if truthy employeeCnt then [''Exact count: '' @ js_String rt employeeCnt] else [])
        @ (if truthy employeeRng then [''Range: '' @ js_String rt employeeRng] else [])
        @ (if truthy (employeesOnLinkedIn rawData)
           then [''LinkedIn employees: '' @ js_String rt (employeesOnLinkedIn rawData)] else []))"

text \<open>The object \<^verbatim>\<open>getEmployeeCount\<close> returns (the properties that \<^verbatim>\<open>process\<close> reads).\<close>

record employeeData =
  api_success :: bool
  employee_count :: jsval
  employee_range :: jsval
  in_target_range_11_200 :: bool
  employee_data_source :: string

definition getEmployeeCount ::
  "target_range \<Rightarrow> runtime \<Rightarrow> company \<Rightarrow> employeeApiData response list
     \<Rightarrow> (js_error + employeeData) \<times> employeeApiData response list" where
  "getEmployeeCount cfg rt c rs =
     (if \<not> truthy (readProp c ''linkedin_url'') \<and> \<not> truthy (readProp c ''linkedin'')
      then (Inl (JsError None ''No LinkedIn URL available''), rs)
      else case request rs of
          (Ok data, rs1) \<Rightarrow>
            (let employeeCnt = extractEmployeeCount data;
                 employeeRng = extractEmployeeRange rt data
             in (Inr \<lparr> api_success = True,
                       employee_count = employeeCnt,
                       employee_range = employeeRng,
                       in_target_range_11_200 = isInTargetRange cfg rt employeeCnt employeeRng,
                       employee_data_source = generateEvidence rt employeeCnt employeeRng data \<rparr>,
                 rs1))
        | (Fail st msg, rs1) \<Rightarrow> (Inl (JsError st msg), rs1))"

function getEmployeeCountWithRetry ::
  "target_range \<Rightarrow> runtime \<Rightarrow> company \<Rightarrow> employeeApiData response list \<Rightarrow> nat
     \<Rightarrow> (js_error + employeeData) \<times> employeeApiData response list" where
  "getEmployeeCountWithRetry cfg rt c rs retryCount =
     (case getEmployeeCount cfg rt c rs of
        (Inr d, rs1) \<Rightarrow> (Inr d, rs1)
      | (Inl e, rs1) \<Rightarrow>
          if errorStatus e = Some 429 \<and> retryCount < 3
          then getEmployeeCountWithRetry cfg rt c rs1 (retryCount + 1)
          else (Inl e, rs1))"
  by pat_completeness auto
termination
  by (relation "measure (\<lambda>(cfg, rt, c, rs, retryCount). 3 - retryCount)") auto

declare getEmployeeCountWithRetry.simps [simp del]

text \<open>
  The loop body of \<^verbatim>\<open>process\<close>: the company with its four employee columns, and whether
  it was pushed onto \<^verbatim>\<open>filteredCompanies\<close>.
\<close>

definition processEmployeeCompany ::
  "target_range \<Rightarrow> runtime \<Rightarrow> employeeApiData response list \<Rightarrow> company \<Rightarrow> company \<times> bool" where
  "processEmployeeCompany cfg rt api c =
     (case fst (getEmployeeCountWithRetry cfg rt c api 0) of
        Inr d \<Rightarrow>
          (assignAll
             [(''employee_count'', employeeData.employee_count d),
              (''employee_range'', employeeData.employee_range d),
              (''in_target_range_11_200'', JBool (in_target_range_11_200 d)),
              (''employee_data_source'', JStr (employee_data_source d))] c,
           in_target_range_11_200 d)
      | Inl e \<Rightarrow>
          (assignAll
             [(''employee_count'', JNull),
              (''employee_range'', JNull),
              (''in_target_range_11_200'', JBool False),
              (''employee_data_source'', JStr (''Error: '' @ errorMessage e))] c,
           False))"

text \<open>
  \<^verbatim>\<open>process\<close> ends by emptying the array and refilling it with \<^verbatim>\<open>filteredCompanies\<close>: the
  stage returns the kept companies only, in input order.
\<close>

definition processEmployees ::
  "target_range \<Rightarrow> runtime \<Rightarrow> (company \<Rightarrow> employeeApiData response list) \<Rightarrow> company list
     \<Rightarrow> company list" where
  "processEmployees cfg rt world companies =
     map fst (filter snd (map (\<lambda>c. processEmployeeCompany cfg rt (world c) c) companies))"

section \<open>Consolidator (\<^verbatim>\<open>modules/consolidator.js\<close>)\<close>

text \<open>\<^verbatim>\<open>v === true || v === 'TRUE'\<close>\<close>

definition flagSet :: "jsval \<Rightarrow> bool" where
  "flagSet v = (v = JBool True \<or> v = JStr ''TRUE'')"

text \<open>
  \<^verbatim>\<open>company[k] && company[k].trim() !== ''\<close>. Only strings have \<^verbatim>\<open>trim\<close>: a truthy value of
  another type raises a TypeError.
\<close>

definition nonBlank :: "company \<Rightarrow> string \<Rightarrow> js_error + bool" where
  "nonBlank c k =
     (let v = readProp c k in
      if \<not> truthy v then Inr False
      else case v of
          JStr s \<Rightarrow> Inr (js_trim s \<noteq> [])
        | _ \<Rightarrow> Inl (JsError None (''company.'' @ k @ ''.trim is not a function'')))"

definition calculatePriorityScore :: "company \<Rightarrow> js_error + int" where
  "calculatePriorityScore c =
     (let score =
            (if flagSet (readProp c ''in_target_range_11_200'') then 2 else 0)
          + (if flagSet (readProp c ''has_funding_data'') then 1 else 0)
          + (if flagSet (readProp c ''has_recent_funding_1yr'') then 2 else 0)
          + (if flagSet (readProp c ''has_recent_jobs'') then 1 else 0)
          + (if flagSet (readProp c ''has_sales_jobs'') then 2 else 0)
          + (if flagSet (readProp c ''has_marketing_jobs'') then 1 else 0)
          + (if flagSet (readProp c ''has_bd_jobs'') then 1 else 0)
      in case nonBlank c ''linkedin_url'' of
           Inl e \<Rightarrow> Inl e
         | Inr b \<Rightarrow> Inr (score + (if b then 1 else 0)))"

definition linkedinNote :: "jsval \<Rightarrow> string list" where
  "linkedinNote src =
     (if truthy src
      then (if src = JStr ''website'' then [''LinkedIn found via website'']
            else if src = JStr ''web_search'' then [''LinkedIn found via web search'']
            else if src = JStr ''existing'' then [''LinkedIn already present'']
            else if src = JStr ''not_found'' then [''LinkedIn not found'']
            else [])
      else [])"

definition generateProcessingNotes :: "company \<Rightarrow> js_error + string" where
  "generateProcessingNotes c =
     (case nonBlank c ''website'' of
        Inl e \<Rightarrow> Inl e
      | Inr hasWebsite \<Rightarrow>
          (case nonBlank c ''linkedin_url'' of
             Inl e \<Rightarrow> Inl e
           | Inr hasLinkedIn \<Rightarrow>
               Inr (js_join ''; ''
                      (linkedinNote (readProp c ''linkedin_source'')
                       @ (if \<not> hasWebsite then [''No website''] else [])
                       @ (if \<not> hasLinkedIn then [''No LinkedIn URL''] else [])))))"

text \<open>The body of the \<^verbatim>\<open>forEach\<close> in \<^verbatim>\<open>generate\<close>, and the loop; an error ends the loop.\<close>

definition scoreCompany :: "runtime \<Rightarrow> company \<Rightarrow> js_error + company" where
  "scoreCompany rt c =
     (case calculatePriorityScore c of
        Inl e \<Rightarrow> Inl e
      | Inr score \<Rightarrow>
          (let c1 = assign ''priority_score'' (JNum (of_int score)) c;
               c2 = assign ''processing_date'' (JStr (nowISO rt)) c1
           in case generateProcessingNotes c2 of
                Inl e \<Rightarrow> Inl e
              | Inr notes \<Rightarrow> Inr (assign ''processing_notes'' (JStr notes) c2)))"

fun scoreAll :: "runtime \<Rightarrow> company list \<Rightarrow> js_error + company list" where
  "scoreAll rt [] = Inr []"
| "scoreAll rt (c # cs) =
     (case scoreCompany rt c of
        Inl e \<Rightarrow> Inl e
      | Inr c' \<Rightarrow> (case scoreAll rt cs of Inl e \<Rightarrow> Inl e | Inr cs' \<Rightarrow> Inr (c' # cs')))"

definition priorityColumns :: "string list" where
  "priorityColumns =
     [''name'', ''companyName'', ''website'', ''linkedin_url'', ''linkedin_source'',
      ''description'', ''industry'', ''employee_count'', ''in_target_range_11_200'',
      ''has_funding_data'', ''has_recent_funding_1yr'', ''funding_details'',
      ''has_recent_jobs'', ''has_sales_jobs'', ''has_marketing_jobs'', ''has_bd_jobs'',
      ''priority_score'', ''processing_date'', ''processing_notes'']"

definition excludeColumns :: "string list" where
  "excludeColumns =
     [''linkedin'', ''LinkedIn'', ''LinkedIn URL'', ''LinkedIn url'', ''linkedin_original'']"

text \<open>The set of all keys of all companies, in order of first insertion.\<close>

definition allHeaders :: "company list \<Rightarrow> string list" where
  "allHeaders companies = rev (remdups (rev (concat (map (map fst) companies))))"

text \<open>
  The priority columns that occur, in the preferred order, then the other columns except
  the hidden ones, sorted (by code unit, here by byte).
\<close>

definition orderedHeaders :: "company list \<Rightarrow> string list" where
  "orderedHeaders companies =
     (let hs = allHeaders companies;
          first = filter (\<lambda>col. col \<in> set hs) priorityColumns;
          remainingHeaders =
            sort (filter (\<lambda>col. col \<notin> set excludeColumns)
                    (filter (\<lambda>col. col \<notin> set priorityColumns) hs))
      in first @ remainingHeaders)"

definition doubleQuotes :: "string \<Rightarrow> string" where
  "doubleQuotes s = concat (map (\<lambda>ch. if ch = CHR 0x22 then [ch, ch] else [ch]) s)"

text \<open>
  \<^verbatim>\<open>JSON.stringify\<close> of an array of strings. The escapes are the ones of the quote, the
  backslash and the named control characters; the other control characters (which JSON
  writes as \<^verbatim>\<open>\u00XX\<close>) are outside the model.
\<close>

definition jsonEscape :: "char \<Rightarrow> string" where
  "jsonEscape ch =
     (if ch = CHR 0x22 then [CHR 0x5C, CHR 0x22]
      else if ch = CHR 0x5C then [CHR 0x5C, CHR 0x5C]
      else if ch = CHR 0x0A then [CHR 0x5C, CHR ''n'']
      else if ch = CHR 0x0D then [CHR 0x5C, CHR ''r'']
      else if ch = CHR 0x09 then [CHR 0x5C, CHR ''t'']
      else if ch = CHR 0x08 then [CHR 0x5C, CHR ''b'']
      else if ch = CHR 0x0C then [CHR 0x5C, CHR ''f'']
      else [ch])"

definition jsonStringify :: "string list \<Rightarrow> string" where
  "jsonStringify xs =
     ''['' @ js_join '','' (map (\<lambda>s. [CHR 0x22] @ concat (map jsonEscape s) @ [CHR 0x22]) xs) @ '']''"

definition csvCell :: "runtime \<Rightarrow> jsval \<Rightarrow> string" where
  "csvCell rt v =
     (case v of
        JNull \<Rightarrow> []
      | JUndefined \<Rightarrow> []
      | JBool b \<Rightarrow> (if b then ''TRUE'' else ''FALSE'')
      | JArr xs \<Rightarrow> [CHR 0x22] @ doubleQuotes (jsonStringify xs) @ [CHR 0x22]
      | _ \<Rightarrow>
          (let stringValue = js_String rt v in
           if CHR '','' \<in> set stringValue \<or> CHR 0x22 \<in> set stringValue \<or> CHR 0x0A \<in> set stringValue
           then [CHR 0x22] @ doubleQuotes stringValue @ [CHR 0x22]
           else stringValue))"

definition rowCells :: "runtime \<Rightarrow> string list \<Rightarrow> company \<Rightarrow> string list" where
  "rowCells rt headers c = map (\<lambda>header. csvCell rt (readProp c header)) headers"

definition csvRows :: "runtime \<Rightarrow> company list \<Rightarrow> string list" where
  "csvRows rt companies =
     map (\<lambda>c. js_join '','' (rowCells rt (orderedHeaders companies) c)) companies"

definition generateCSV :: "runtime \<Rightarrow> company list \<Rightarrow> string" where
  "generateCSV rt companies =
     (if length companies = 0 then ''No data''
      else js_join [CHR 0x0A] (js_join '','' (orderedHeaders companies) # csvRows rt companies))"

text \<open>\<^verbatim>\<open>generate\<close>: the content of the file it writes.\<close>

definition generate :: "runtime \<Rightarrow> company list \<Rightarrow> js_error + string" where
  "generate rt companies =
     (case scoreAll rt companies of
        Inl e \<Rightarrow> Inl e
      | Inr scored \<Rightarrow> Inr (generateCSV rt scored))"

section \<open>The stages in sequence\<close>

text \<open>
  The stages that follow LinkedIn discovery, in the orchestrator's order: employee
  filter, funding, jobs; then the consolidator. The outside world of each stage is a
  function of the company the stage is working on.
\<close>

record world =
  employeeWorld :: "company \<Rightarrow> employeeApiData response list"
  fundingWorld :: "company \<Rightarrow> funding_world"
  jobWorld :: "company \<Rightarrow> job_world"

definition runStages :: "target_range \<Rightarrow> runtime \<Rightarrow> world \<Rightarrow> company list \<Rightarrow> company list" where
  "runStages cfg rt w companies =
     processJobs rt (jobWorld w)
       (processFunding rt (fundingWorld w)
          (processEmployees cfg rt (employeeWorld w) companies))"

definition runPipeline :: "target_range \<Rightarrow> runtime \<Rightarrow> world \<Rightarrow> company list \<Rightarrow> js_error + string" where
  "runPipeline cfg rt w companies = generate rt (runStages cfg rt w companies)"

section \<open>Integrated analyzers (\<^verbatim>\<open>modules/funding-analyzer-integrated.js\<close>)\<close>










section \<open>Vocabulary of the properties\<close>

text \<open>\<^verbatim>\<open>typeof v\<close>\<close>

fun js_typeof :: "jsval \<Rightarrow> string" where
  "js_typeof JUndefined = ''undefined''"
| "js_typeof JNull = ''object''"
| "js_typeof (JBool b) = ''boolean''"
| "js_typeof (JNum n) = ''number''"
| "js_typeof (JStr s) = ''string''"
| "js_typeof (JArr xs) = ''object''"

text \<open>The three ``empty'' defaults: \<^verbatim>\<open>false\<close>, the empty string and \<^verbatim>\<open>0\<close>.\<close>

definition isEmptyDefault :: "jsval \<Rightarrow> bool" where
  "isEmptyDefault v = (v = JBool False \<or> v = JStr [] \<or> v = JNum 0)"

text \<open>The columns of the two stages, in assignment order.\<close>

definition jobColumns :: "string list" where
  "jobColumns = map fst jobDefaults"

definition fundingColumns :: "string list" where
  "fundingColumns = map fst fundingDefaults"

text \<open>Whether the employee stage keeps a company of its input.\<close>

definition keptByEmployeeStage :: "target_range \<Rightarrow> runtime \<Rightarrow> world \<Rightarrow> company \<Rightarrow> bool" where
  "keptByEmployeeStage cfg rt w c = snd (processEmployeeCompany cfg rt (employeeWorld w c) c)"

section \<open>Sample inputs\<close>

text \<open>
  A runtime for the examples: whole non-negative numbers print in decimal, a date is
  recent when it lies after the first day of 2024, and a ten-character date is its own
  ISO day.
\<close>

fun decimal :: "nat \<Rightarrow> string" where
  "decimal n = (if n < 10 then [''0123456789'' ! n]
                else decimal (n div 10) @ [''0123456789'' ! (n mod 10)])"

declare decimal.simps [simp del]

definition sample_runtime :: runtime where
  "sample_runtime =
     \<lparr> numToString = (\<lambda>r. decimal (nat \<lfloor>r\<rfloor>)),
       isRecentDate = (\<lambda>s. ''2024-01-01'' < s),
       isoDay = (\<lambda>s. if length s = 10 then Some s else None),
       nowISO = ''2025-01-15T09:00:00.000Z'' \<rparr>"

definition acme :: company where
  "acme =
     [(''name'', JStr ''Acme''),
      (''website'', JStr ''https://acme.example''),
      (''linkedin_url'', JStr ''https://www.linkedin.com/company/acme''),
      (''employee_count'', JNum 21)]"

text \<open>A company about which nothing but the name and the head count is known.\<close>

definition bare :: company where
  "bare = [(''name'', JStr ''Acme''), (''employee_count'', JNum 21)]"

definition noSignal :: job_tier where
  "noSignal =
     \<lparr> job_tier.found = False, titles = [], job_tier.hasSales = False,
       job_tier.hasMarketing = False, job_tier.hasBD = False \<rparr>"

definition careerHit :: job_tier where
  "careerHit =
     \<lparr> job_tier.found = True, titles = [''Account Executive''], job_tier.hasSales = True,
       job_tier.hasMarketing = False, job_tier.hasBD = False \<rparr>"

definition sample_job_web :: job_web where
  "sample_job_web = \<lparr> scrapeCareerPage = careerHit, scrapeLinkedInPublic = noSignal \<rparr>"

definition quiet_job_web :: job_web where
  "quiet_job_web = \<lparr> scrapeCareerPage = noSignal, scrapeLinkedInPublic = noSignal \<rparr>"

text \<open>
  The primary API answers with no job at all, or with one recent job: for an engineer, or
  for an account executive.
\<close>

definition engineerJob :: job where
  "engineerJob =
     \<lparr> title = ''Software Engineer'', listedAt = ''2 days ago'', recent = True,
       veryRecent = True \<rparr>"


definition zeroJobsWorld :: job_world where
  "zeroJobsWorld = \<lparr> jobApi = [Ok []], jobWeb = sample_job_web \<rparr>"


definition downJobWorld :: job_world where
  "downJobWorld =
     \<lparr> jobApi = [Fail (Some 500) ''Request failed with status code 500''],
       jobWeb = quiet_job_web \<rparr>"

definition noFunding :: funding_tier where
  "noFunding = \<lparr> funding_tier.found = False, rounds = [], funding_tier.details = [] \<rparr>"

definition quiet_funding_web :: funding_web where
  "quiet_funding_web = \<lparr> scrapePressReleases = noFunding, scrapeLinkedInFunding = noFunding \<rparr>"

definition downFundingWorld :: funding_world where
  "downFundingWorld =
     \<lparr> fundingApi = [Fail (Some 500) ''Request failed with status code 500''],
       fundingWeb = quiet_funding_web \<rparr>"

definition noRoundsWorld :: funding_world where
  "noRoundsWorld =
     \<lparr> fundingApi = [Ok \<lparr> crunchbase.funding_rounds = [], crunchbase.crunchbase_url = [] \<rparr>],
       fundingWeb = quiet_funding_web \<rparr>"

definition globex :: company where
  "globex = [(''name'', JStr ''Globex''), (''employee_count'', JNum 150)]"


text \<open>A primary funding answer without rounds, and a fallback result with four details.\<close>

definition noCrunchbase :: crunchbase where
  "noCrunchbase = \<lparr> crunchbase.funding_rounds = [], crunchbase.crunchbase_url = [] \<rparr>"

definition pressDetail :: "string \<Rightarrow> detail" where
  "pressDetail t = \<lparr> source = ''press_release'', dtext = t, ddate = ''2024-06-15'' \<rparr>"

definition fourDetails :: funding_fallback where
  "fourDetails =
     emptyFundingFallback
       \<lparr> funding_fallback.found := True,
         funding_fallback.sources := [''press_releases''],
         funding_fallback.details :=
           [pressDetail ''r1'', pressDetail ''r2'', pressDetail ''r3'', pressDetail ''r4''] \<rparr>"

text \<open>
  The scenario of the employee stage: three companies with 5, 45 and 250 employees and the
  target window 11 to 200. The other two primary calls fail.
\<close>

definition window :: target_range where
  "window = \<lparr> range_min = 11, range_max = 200 \<rparr>"

definition listed :: "string \<Rightarrow> company" where
  "listed n =
     [(''name'', JStr n),
      (''linkedin_url'', JStr (''https://www.linkedin.com/company/'' @ n))]"

definition headCount :: "rat \<Rightarrow> employeeApiData" where
  "headCount n =
     \<lparr> employeeCount = JNum n, employeeApiData.employee_count = JUndefined,
       employeesCount = JUndefined, employeeCountRange = NoRange,
       employeeApiData.employee_range = JUndefined, employeeRange = JUndefined,
       employeesOnLinkedIn = JUndefined \<rparr>"

definition staffWorld :: world where
  "staffWorld =
     \<lparr> employeeWorld =
         (\<lambda>c. if readProp c ''name'' = JStr ''tiny'' then [Ok (headCount 5)]
              else if readProp c ''name'' = JStr ''mid'' then [Ok (headCount 45)]
              else if readProp c ''name'' = JStr ''big'' then [Ok (headCount 250)]
              else []),
       fundingWorld = (\<lambda>c. downFundingWorld),
       jobWorld = (\<lambda>c. downJobWorld) \<rparr>"

text \<open>A company of the consolidator's input with two columns of its own.\<close>

definition stand :: company where
  "stand =
     [(''name'', JStr ''Acme''),
      (''zip'', JStr ''75001''),
      (''LinkedIn'', JStr ''https://www.linkedin.com/company/acme''),
      (''booth'', JStr ''B12''),
      (''job_confidence'', JNum 0),
      (''priority_score'', JNum 3)]"

definition threeCompanies :: "company list" where
  "threeCompanies = [listed ''tiny'', listed ''mid'', listed ''big'']"

section \<open>Properties\<close>

subsection \<open>Reading and writing columns\<close>

lemma readProp_assign:
  "readProp (assign k v c) k' = (if k' = k then v else readProp c k')"
  by (simp add: readProp_def assign_def update_conv')

lemma readProp_assignAll:
  "readProp (assignAll kvs c) k' =
     (case map_of (rev kvs) k' of Some v \<Rightarrow> v | None \<Rightarrow> readProp c k')"
proof (induction kvs arbitrary: c)
  case Nil
  then show ?case by (simp add: assignAll_def)
next
  case (Cons kv kvs)
  obtain k v where kv: "kv = (k, v)" by (cases kv)
  have "assignAll (kv # kvs) c = assignAll kvs (assign k v c)"
    by (simp add: assignAll_def kv)
  then show ?case
    using Cons.IH [of "assign k v c"]
    by (auto simp: kv readProp_assign map_add_def split: option.splits)
qed

lemma js_gt_num: "js_gt (JNum n) m = (n > m)"
  by (simp add: js_gt_def)

subsection \<open>What the primary call and the fusion can return\<close>

lemma getJobData_Inr:
  "getJobData c rs = (Inr d, rs') \<Longrightarrow> \<exists>jobs. d = jobDataOf jobs"
  by (auto simp: getJobData_def request_def
           split: if_splits list.splits response.splits prod.splits)

lemma getJobDataWithRetry_Inr:
  "getJobDataWithRetry c rs n = (Inr d, rs') \<Longrightarrow> \<exists>jobs. d = jobDataOf jobs"
proof (induction c rs n rule: getJobDataWithRetry.induct)
  case (1 c rs retryCount)
  obtain r rs1 where g: "getJobData c rs = (r, rs1)" by (cases "getJobData c rs")
  show ?case
  proof (cases r)
    case (Inl e)
    with g "1.prems" "1.IH" show ?thesis
      by (auto simp: getJobDataWithRetry.simps [of c rs retryCount] split: if_splits)
  next
    case (Inr d0)
    with g "1.prems" have "d = d0"
      by (simp add: getJobDataWithRetry.simps [of c rs retryCount])
    with g Inr show ?thesis using getJobData_Inr by blast
  qed
qed

lemma getJobDataWithRetry_once:
  "getJobData c rs = (Inr d, rs1) \<Longrightarrow> getJobDataWithRetry c rs n = (Inr d, rs1)"
  by (simp add: getJobDataWithRetry.simps [of c rs n])

lemma fuseJobs_cases:
  assumes "fuseJobs rt w c = Inr d"
  shows "(\<exists>jobs. d = jobDataOf jobs)
         \<or> (\<exists>jobs. d = mergeFallbackData_jobs (jobDataOf jobs) (findJobOpenings rt (jobWeb w) c))"
proof -
  obtain r rs1 where g: "getJobDataWithRetry c (jobApi w) 0 = (r, rs1)"
    by (cases "getJobDataWithRetry c (jobApi w) 0")
  show ?thesis
  proof (cases r)
    case (Inl e)
    with g assms show ?thesis by (simp add: fuseJobs_def)
  next
    case (Inr d0)
    with g obtain jobs where "d0 = jobDataOf jobs"
      using getJobDataWithRetry_Inr by blast
    with g Inr assms show ?thesis
      by (auto simp: fuseJobs_def Let_def split: if_splits)
  qed
qed

lemma getFundingData_Inr:
  "getFundingData rt c rs = (Inr d, rs') \<Longrightarrow> \<exists>cb. d = fundingDataOf rt cb"
  by (auto simp: getFundingData_def request_def
           split: if_splits list.splits response.splits prod.splits)

lemma getFundingDataWithRetry_Inr:
  "getFundingDataWithRetry rt c rs n = (Inr d, rs') \<Longrightarrow> \<exists>cb. d = fundingDataOf rt cb"
proof (induction rt c rs n rule: getFundingDataWithRetry.induct)
  case (1 rt c rs retryCount)
  obtain r rs1 where g: "getFundingData rt c rs = (r, rs1)" by (cases "getFundingData rt c rs")
  show ?case
  proof (cases r)
    case (Inl e)
    with g "1.prems" "1.IH" show ?thesis
      by (auto simp: getFundingDataWithRetry.simps [of rt c rs retryCount] split: if_splits)
  next
    case (Inr d0)
    with g "1.prems" have "d = d0"
      by (simp add: getFundingDataWithRetry.simps [of rt c rs retryCount])
    with g Inr show ?thesis using getFundingData_Inr by blast
  qed
qed

lemma getFundingDataWithRetry_once:
  "getFundingData rt c rs = (Inr d, rs1) \<Longrightarrow> getFundingDataWithRetry rt c rs n = (Inr d, rs1)"
  by (simp add: getFundingDataWithRetry.simps [of rt c rs n])

lemma fuseFunding_cases:
  assumes "fuseFunding rt w c = Inr d"
  shows "(\<exists>cb. d = fundingDataOf rt cb)
         \<or> (\<exists>cb. d = mergeFallbackData_funding (fundingDataOf rt cb)
                        (findFundingData rt (fundingWeb w) c))"
proof -
  obtain r rs1 where g: "getFundingDataWithRetry rt c (fundingApi w) 0 = (r, rs1)"
    by (cases "getFundingDataWithRetry rt c (fundingApi w) 0")
  show ?thesis
  proof (cases r)
    case (Inl e)
    with g assms show ?thesis by (simp add: fuseFunding_def)
  next
    case (Inr d0)
    with g obtain cb where "d0 = fundingDataOf rt cb"
      using getFundingDataWithRetry_Inr by blast
    with g Inr assms show ?thesis
      by (auto simp: fuseFunding_def Let_def split: if_splits)
  qed
qed

subsection \<open>Escalation threshold\<close>

text \<open>
  C5. The jobs escalation rule compares strictly at the zero-jobs floor of 20: after a
  successful primary call that found no recent job, a company whose
  \<^verbatim>\<open>employee_count\<close> is the number \<open>n\<close> escalates to the fallback exactly when \<open>n > 20\<close>.
  So 20 employees do not escalate and 21 do.
\<close>

theorem zero_jobs_floor_is_strict:
  assumes "jobData.api_success p" and "recent_job_count p = 0"
    and "readProp c ''employee_count'' = JNum n"
  shows "shouldUseFallback_jobs p c \<longleftrightarrow> n > 20"
  using assms by (auto simp: shouldUseFallback_jobs_def js_gt_num)

theorem zero_jobs_floor_is_strict_witness:
  "\<not> shouldUseFallback_jobs (jobDataOf [])
        [(''name'', JStr ''Acme''), (''employee_count'', JNum 20)]
   \<and> shouldUseFallback_jobs (jobDataOf [])
        [(''name'', JStr ''Acme''), (''employee_count'', JNum 21)]"
  using zero_jobs_floor_is_strict
          [of "jobDataOf []" "[(''name'', JStr ''Acme''), (''employee_count'', JNum 20)]" 20]
        zero_jobs_floor_is_strict
          [of "jobDataOf []" "[(''name'', JStr ''Acme''), (''employee_count'', JNum 21)]" 21]
  by (simp add: jobDataOf_def Let_def readProp_def)

subsection \<open>Role flags under merging\<close>

text \<open>
  C6. Merging never retracts a role flag. Both merge steps combine each of the three
  flags by logical or: merging the fallback result into the primary result, and merging
  one scraping method's outcome into the fallback result (a method is merged when it
  found something). A flag that is true before a merge is therefore true after it,
  whatever the merged source reports.
\<close>

theorem merge_flags_never_retract:
  "has_sales_jobs (mergeFallbackData_jobs p f) = (has_sales_jobs p \<or> job_fallback.hasSales f)
   \<and> has_marketing_jobs (mergeFallbackData_jobs p f)
        = (has_marketing_jobs p \<or> job_fallback.hasMarketing f)
   \<and> has_bd_jobs (mergeFallbackData_jobs p f) = (has_bd_jobs p \<or> job_fallback.hasBD f)
   \<and> job_fallback.hasSales (addJobSource label d r)
        = (job_fallback.hasSales r \<or> job_tier.found d \<and> job_tier.hasSales d)
   \<and> job_fallback.hasMarketing (addJobSource label d r)
        = (job_fallback.hasMarketing r \<or> job_tier.found d \<and> job_tier.hasMarketing d)
   \<and> job_fallback.hasBD (addJobSource label d r)
        = (job_fallback.hasBD r \<or> job_tier.found d \<and> job_tier.hasBD d)"
  by (simp add: mergeFallbackData_jobs_def addJobSource_def Let_def)

theorem merge_flags_never_retract_witness:
  "has_sales_jobs (mergeFallbackData_jobs ((jobDataOf []) \<lparr> has_sales_jobs := True \<rparr>)
                     emptyJobFallback)
   \<and> job_fallback.hasSales (addJobSource ''linkedin_public'' noSignal
                               (addJobSource ''career_page'' careerHit emptyJobFallback))"
  using merge_flags_never_retract
          [of "(jobDataOf []) \<lparr> has_sales_jobs := True \<rparr>" emptyJobFallback
              "''linkedin_public''" noSignal
              "addJobSource ''career_page'' careerHit emptyJobFallback"]
        merge_flags_never_retract
          [of "jobDataOf []" emptyJobFallback "''career_page''" careerHit emptyJobFallback]
  by (simp add: careerHit_def)

subsection \<open>Recent jobs and target roles\<close>






subsection \<open>Confidence\<close>

lemma findJobOpenings_confidence:
  "0 \<le> job_fallback.confidence (findJobOpenings rt web c)
   \<and> job_fallback.confidence (findJobOpenings rt web c) \<le> 1"
  by (simp add: findJobOpenings_def addJobSource_def emptyJobFallback_def Let_def
        calculateJobConfidence_def jobWeight_def)

lemma findJobOpenings_confidence_eq:
  "job_fallback.confidence (findJobOpenings rt web c)
     = calculateJobConfidence (job_fallback.sources (findJobOpenings rt web c))"
  by (simp add: findJobOpenings_def Let_def)

lemma findFundingData_confidence:
  "0 \<le> funding_fallback.confidence (findFundingData rt web c)
   \<and> funding_fallback.confidence (findFundingData rt web c) \<le> 1"
  by (simp add: findFundingData_def addFundingSource_def emptyFundingFallback_def Let_def
        calculateFundingConfidence_def fundingWeight_def)

lemma findFundingData_confidence_eq:
  "funding_fallback.confidence (findFundingData rt web c)
     = calculateFundingConfidence (funding_fallback.sources (findFundingData rt web c))"
  by (simp add: findFundingData_def Let_def)

lemma fuseJobs_confidence:
  assumes "fuseJobs rt w c = Inr d"
  shows "0 \<le> jobData.confidence d \<and> jobData.confidence d \<le> 1"
proof -
  from fuseJobs_cases [OF assms] show ?thesis
  proof
    assume "\<exists>jobs. d = jobDataOf jobs"
    then show ?thesis by (auto simp: jobDataOf_def Let_def)
  next
    assume "\<exists>jobs. d = mergeFallbackData_jobs (jobDataOf jobs)
                          (findJobOpenings rt (jobWeb w) c)"
    then obtain jobs
      where d: "d = mergeFallbackData_jobs (jobDataOf jobs) (findJobOpenings rt (jobWeb w) c)"
      by blast
    have "jobData.confidence d
          = (8 / 10 + job_fallback.confidence (findJobOpenings rt (jobWeb w) c)) / 2"
      by (simp add: d mergeFallbackData_jobs_def jobDataOf_def Let_def)
    with findJobOpenings_confidence [of rt "jobWeb w" c] show ?thesis by simp
  qed
qed

lemma fuseFunding_confidence:
  assumes "fuseFunding rt w c = Inr d"
  shows "0 \<le> fundingData.confidence d \<and> fundingData.confidence d \<le> 1"
proof -
  from fuseFunding_cases [OF assms] show ?thesis
  proof
    assume "\<exists>cb. d = fundingDataOf rt cb"
    then show ?thesis by (auto simp: fundingDataOf_def Let_def)
  next
    assume "\<exists>cb. d = mergeFallbackData_funding (fundingDataOf rt cb)
                        (findFundingData rt (fundingWeb w) c)"
    then obtain cb
      where d: "d = mergeFallbackData_funding (fundingDataOf rt cb)
                      (findFundingData rt (fundingWeb w) c)"
      by blast
    have "fundingData.confidence d
          = (8 / 10 + funding_fallback.confidence (findFundingData rt (fundingWeb w) c)) / 2"
      by (simp add: d mergeFallbackData_funding_def fundingDataOf_def Let_def)
    with findFundingData_confidence [of rt "fundingWeb w" c] show ?thesis by simp
  qed
qed

lemma job_confidence_column:
  "\<exists>x. readProp (processJobCompany rt w c) ''job_confidence'' = JNum x \<and> 0 \<le> x \<and> x \<le> 1"
proof (cases "fuseJobs rt w c")
  case (Inl e)
  then show ?thesis
    by (simp add: processJobCompany_def readProp_assignAll jobDefaults_def)
next
  case (Inr d)
  then show ?thesis
    using fuseJobs_confidence [OF Inr]
    by (simp add: processJobCompany_def readProp_assignAll jobFields_def)
qed

lemma funding_confidence_column:
  "\<exists>x. readProp (processFundingCompany rt w c) ''funding_confidence'' = JNum x
        \<and> 0 \<le> x \<and> x \<le> 1"
proof (cases "fuseFunding rt w c")
  case (Inl e)
  then show ?thesis
    by (simp add: processFundingCompany_def readProp_assignAll fundingDefaults_def)
next
  case (Inr d)
  then show ?thesis
    using fuseFunding_confidence [OF Inr]
    by (simp add: processFundingCompany_def readProp_assignAll fundingFields_def)
qed

text \<open>
  C4. Every fused result has a confidence between 0 and 1: the confidence column that
  the jobs stage and the funding stage write for a company is a number in that interval
  on every path (primary only, merged with the fallback, error defaults), and the
  merged confidence is the average of the primary confidence and the fallback's sum of
  source weights.
\<close>

theorem fused_confidence_in_unit_interval:
  "(\<exists>x. readProp (processJobCompany rt jw c) ''job_confidence'' = JNum x \<and> 0 \<le> x \<and> x \<le> 1)
   \<and> (\<exists>y. readProp (processFundingCompany rt fw c) ''funding_confidence'' = JNum y
           \<and> 0 \<le> y \<and> y \<le> 1)
   \<and> jobData.confidence (mergeFallbackData_jobs p (findJobOpenings rt jweb c))
        = (jobData.confidence p
           + calculateJobConfidence (job_fallback.sources (findJobOpenings rt jweb c))) / 2
   \<and> fundingData.confidence (mergeFallbackData_funding q (findFundingData rt fweb c))
        = (fundingData.confidence q
           + calculateFundingConfidence
               (funding_fallback.sources (findFundingData rt fweb c))) / 2"
  using job_confidence_column [of rt jw c] funding_confidence_column [of rt fw c]
  by (simp add: mergeFallbackData_jobs_def mergeFallbackData_funding_def Let_def
        findJobOpenings_confidence_eq findFundingData_confidence_eq)

subsection \<open>The sample companies\<close>

lemma acme_props:
  "truthy (readProp acme ''website'')"
  "truthy (js_or (readProp acme ''linkedin_url'') (readProp acme ''linkedin''))"
  "truthy (readProp acme ''linkedin_url'')"
  "readProp acme ''employee_count'' = JNum 21"
  "readProp acme ''has_funding_data'' = JUndefined"
  "readProp acme ''name'' = JStr ''Acme''"
  by (simp_all add: acme_def readProp_def js_or_def)

lemma globex_props:
  "readProp globex ''employee_count'' = JNum 150"
  "readProp globex ''has_funding_data'' = JUndefined"
  "readProp globex ''name'' = JStr ''Globex''"
  "\<not> truthy (readProp globex ''website'')"
  "\<not> truthy (js_or (readProp globex ''linkedin_url'') (readProp globex ''linkedin''))"
  by (simp_all add: globex_def readProp_def js_or_def)

lemma hiring_title_roles:
  "matchesRolePattern (toLowerCase ''Acme is hiring new team members'') salesPatterns"
  "\<not> matchesRolePattern (toLowerCase ''Acme is hiring new team members'') marketingPatterns"
  "\<not> matchesRolePattern (toLowerCase ''Acme is hiring new team members'') bdPatterns"
  by (simp_all add: matchesRolePattern_def toLowerCase.simps lower_char_def salesPatterns_def
        marketingPatterns_def bdPatterns_def)

lemma acme_search:
  "searchGoogleHiring sample_runtime acme =
     \<lparr> job_tier.found = True,
       titles = [''Acme is hiring new team members''],
       job_tier.hasSales = True,
       job_tier.hasMarketing = False,
       job_tier.hasBD = False \<rparr>"
  by (simp add: searchGoogleHiring_def simulateGoogleResults_def acme_props js_gt_def
        hiring_title_roles)

lemma acme_findJobOpenings:
  "findJobOpenings sample_runtime sample_job_web acme =
     \<lparr> job_fallback.found = True,
       job_fallback.sources = [''career_page'', ''google_search''],
       jobTitles = [''Account Executive'', ''Acme is hiring new team members''],
       job_fallback.hasSales = True, job_fallback.hasMarketing = False,
       job_fallback.hasBD = False, job_fallback.confidence = 7 / 10 \<rparr>"
  by (simp add: findJobOpenings_def acme_props acme_search addJobSource_def
        emptyJobFallback_def Let_def sample_job_web_def careerHit_def noSignal_def
        calculateJobConfidence_def jobWeight_def)

lemma zero_jobs_fuse:
  "fuseJobs sample_runtime zeroJobsWorld acme
     = Inr (mergeFallbackData_jobs (jobDataOf [])
              (findJobOpenings sample_runtime sample_job_web acme))"
proof -
  have p: "getJobData acme [Ok []] = (Inr (jobDataOf []), [])"
    by (simp add: getJobData_def acme_props request_def)
  have g: "getJobDataWithRetry acme (jobApi zeroJobsWorld) 0 = (Inr (jobDataOf []), [])"
    using getJobDataWithRetry_once [OF p] by (simp add: zeroJobsWorld_def)
  have s: "shouldUseFallback_jobs (jobDataOf []) acme"
    by (simp add: shouldUseFallback_jobs_def jobDataOf_def Let_def js_gt_def acme_props)
  have w: "jobWeb zeroJobsWorld = sample_job_web"
    by (simp add: zeroJobsWorld_def)
  show ?thesis
    by (simp add: fuseJobs_def g s Let_def w acme_findJobOpenings)
qed

lemma down_job_fuse:
  "fuseJobs sample_runtime downJobWorld acme
     = Inl (JsError (Some 500) ''Request failed with status code 500'')"
  by (simp add: fuseJobs_def downJobWorld_def getJobDataWithRetry.simps getJobData_def
        acme_props request_def)

lemma down_funding_fuse:
  "fuseFunding sample_runtime downFundingWorld acme
     = Inl (JsError (Some 500) ''Request failed with status code 500'')"
  by (simp add: fuseFunding_def downFundingWorld_def getFundingDataWithRetry.simps
        getFundingData_def acme_props request_def)

text \<open>A merged result with confidence 3/4, and an error default.\<close>

theorem fused_confidence_in_unit_interval_witness:
  "readProp (processJobCompany sample_runtime zeroJobsWorld acme) ''job_confidence''
     = JNum (3 / 4)
   \<and> readProp (processFundingCompany sample_runtime downFundingWorld acme) ''funding_confidence''
       = JNum 0"
  using fused_confidence_in_unit_interval
          [of sample_runtime zeroJobsWorld acme downFundingWorld "jobDataOf []" sample_job_web]
  by (simp add: processJobCompany_def zero_jobs_fuse readProp_assignAll jobFields_def
        mergeFallbackData_jobs_def Let_def acme_findJobOpenings jobDataOf_def
        processFundingCompany_def down_funding_fuse fundingDefaults_def)

subsection \<open>The search tier\<close>

lemma bare_props:
  "readProp bare ''employee_count'' = JNum 21"
  "readProp bare ''has_funding_data'' = JUndefined"
  "readProp bare ''name'' = JStr ''Acme''"
  "\<not> truthy (readProp bare ''website'')"
  "\<not> truthy (js_or (readProp bare ''linkedin_url'') (readProp bare ''linkedin''))"
  by (simp_all add: bare_def readProp_def js_or_def)

lemma bare_search:
  "searchGoogleHiring sample_runtime bare =
     \<lparr> job_tier.found = True,
       titles = [''Acme is hiring new team members''],
       job_tier.hasSales = True,
       job_tier.hasMarketing = False,
       job_tier.hasBD = False \<rparr>"
  by (simp add: searchGoogleHiring_def simulateGoogleResults_def bare_props js_gt_def
        hiring_title_roles)

lemma globex_news:
  "searchFundingNews sample_runtime globex =
     \<lparr> funding_tier.found = True,
       rounds =
         [\<lparr> fundingRound.amount = ''$2.5M'', type = ''seed'', fundingRound.date = ''2024-06-15'',
            raw = ''Globex raises $2.5M seed round'' \<rparr>,
          \<lparr> fundingRound.amount = ''$10M'', type = ''series a'',
            fundingRound.date = ''2023-11-20'', raw = ''Globex secures $10M Series A'' \<rparr>],
       funding_tier.details =
         [\<lparr> source = ''news_search'', dtext = ''Globex funding news'', ddate = ''2024-06-15'' \<rparr>,
          \<lparr> source = ''news_search'', dtext = ''Globex funding news'',
            ddate = ''2023-11-20'' \<rparr>] \<rparr>"
  by (simp add: searchFundingNews_def simulateFundingNews_def globex_props js_gt_def)

text \<open>
  C1. The claim is that the search tier contributes \<^verbatim>\<open>found: false\<close> when no real search
  is wired in. The code of the fallback scrapers does the opposite. For a company of
  which only the name and 21 employees are known, with no website and no LinkedIn URL,
  the jobs search tier returns the invented title ``Acme is hiring new team members'',
  which also sets the sales flag (``team'' contains the pattern ``am''), and the fused
  fallback result is found with source \<^verbatim>\<open>google_search\<close>. For a company with 150
  employees the funding search tier returns two invented rounds, and the fused fallback
  result is found with source \<^verbatim>\<open>news_search\<close> and the total ``$2.5M, $10M''.
\<close>

theorem search_tier_fabricates_signals:
  "searchGoogleHiring sample_runtime bare =
     \<lparr> job_tier.found = True,
       titles = [''Acme is hiring new team members''],
       job_tier.hasSales = True,
       job_tier.hasMarketing = False,
       job_tier.hasBD = False \<rparr>
   \<and> job_fallback.found (findJobOpenings sample_runtime quiet_job_web bare)
   \<and> job_fallback.sources (findJobOpenings sample_runtime quiet_job_web bare)
       = [''google_search'']
   \<and> job_fallback.hasSales (findJobOpenings sample_runtime quiet_job_web bare)
   \<and> map fundingRound.amount (rounds (searchFundingNews sample_runtime globex))
       = [''$2.5M'', ''$10M'']
   \<and> funding_fallback.found (findFundingData sample_runtime quiet_funding_web globex)
   \<and> funding_fallback.sources (findFundingData sample_runtime quiet_funding_web globex)
       = [''news_search'']
   \<and> totalAmount (findFundingData sample_runtime quiet_funding_web globex) = ''$2.5M, $10M''"
  by (simp add: bare_search findJobOpenings_def bare_props addJobSource_def
        emptyJobFallback_def Let_def globex_news findFundingData_def globex_props
        addFundingSource_def emptyFundingFallback_def calculateTotalFunding_fb_def)





























subsection \<open>Complete output columns\<close>

lemma job_columns_defined:
  "\<forall>k \<in> set jobColumns. readProp (processJobCompany rt w c) k \<noteq> JUndefined"
  by (cases "fuseJobs rt w c")
     (simp_all add: processJobCompany_def readProp_assignAll jobColumns_def jobDefaults_def
        jobFields_def)

lemma funding_columns_defined:
  "\<forall>k \<in> set fundingColumns. readProp (processFundingCompany rt w c) k \<noteq> JUndefined"
  by (cases "fuseFunding rt w c")
     (simp_all add: processFundingCompany_def readProp_assignAll fundingColumns_def
        fundingDefaults_def fundingFields_def)

lemma job_columns_types:
  "map (\<lambda>k. js_typeof (readProp (processJobCompany rt w c) k)) jobColumns
     = [''boolean'', ''boolean'', ''boolean'', ''boolean'', ''string'', ''string'', ''number'',
        ''string'', (if isl (fuseJobs rt w c) then ''string'' else ''object''), ''number'']"
  by (cases "fuseJobs rt w c")
     (simp_all add: processJobCompany_def readProp_assignAll jobColumns_def jobDefaults_def
        jobFields_def)

lemma funding_columns_types:
  "map (\<lambda>k. js_typeof (readProp (processFundingCompany rt w c) k)) fundingColumns
     = [''boolean'', ''boolean'', ''string'', ''string'', ''string'', ''string'', ''string'',
        (if isl (fuseFunding rt w c) then ''string'' else ''object''), ''number'']"
  by (cases "fuseFunding rt w c")
     (simp_all add: processFundingCompany_def readProp_assignAll fundingColumns_def
        fundingDefaults_def fundingFields_def)

lemma job_columns_on_failure:
  "isl (fuseJobs rt w c)
   \<Longrightarrow> map (readProp (processJobCompany rt w c)) jobColumns = map snd jobDefaults"
  by (cases "fuseJobs rt w c")
     (simp_all add: processJobCompany_def readProp_assignAll jobColumns_def jobDefaults_def)

lemma funding_columns_on_failure:
  "isl (fuseFunding rt w c)
   \<Longrightarrow> map (readProp (processFundingCompany rt w c)) fundingColumns = map snd fundingDefaults"
  by (cases "fuseFunding rt w c")
     (simp_all add: processFundingCompany_def readProp_assignAll fundingColumns_def
        fundingDefaults_def)

text \<open>
  C9, as the code has it. The jobs stage and the funding stage return one company for
  every company they were given (no error leaves the stage), and every company leaves
  with all columns of the dimension defined. Each column has a fixed type, except the
  source list, which is an array after a successful primary call and the empty string
  after a failed one. After a failure the columns hold the defaults of the \<^verbatim>\<open>catch\<close>
  block: \<^verbatim>\<open>false\<close>, the empty string or \<open>0\<close> for funding, and the same for jobs except
  \<^verbatim>\<open>hiring_urgency\<close>, whose default is the string \<^verbatim>\<open>None\<close>.
\<close>

theorem stage_leaves_complete_typed_columns:
  "length (processJobs rt jworld companies) = length companies
   \<and> length (processFunding rt fworld companies) = length companies
   \<and> (\<forall>k \<in> set jobColumns. readProp (processJobCompany rt jw c) k \<noteq> JUndefined)
   \<and> (\<forall>k \<in> set fundingColumns. readProp (processFundingCompany rt fw c) k \<noteq> JUndefined)
   \<and> map (\<lambda>k. js_typeof (readProp (processJobCompany rt jw c) k)) jobColumns
       = [''boolean'', ''boolean'', ''boolean'', ''boolean'', ''string'', ''string'', ''number'',
          ''string'', (if isl (fuseJobs rt jw c) then ''string'' else ''object''), ''number'']
   \<and> map (\<lambda>k. js_typeof (readProp (processFundingCompany rt fw c) k)) fundingColumns
       = [''boolean'', ''boolean'', ''string'', ''string'', ''string'', ''string'', ''string'',
          (if isl (fuseFunding rt fw c) then ''string'' else ''object''), ''number'']
   \<and> (isl (fuseJobs rt jw c)
        \<longrightarrow> map (readProp (processJobCompany rt jw c)) jobColumns = map snd jobDefaults)
   \<and> (isl (fuseFunding rt fw c)
        \<longrightarrow> map (readProp (processFundingCompany rt fw c)) fundingColumns
            = map snd fundingDefaults)
   \<and> (\<forall>v \<in> set (map snd fundingDefaults). isEmptyDefault v)
   \<and> (\<forall>kv \<in> set jobDefaults.
         if fst kv = ''hiring_urgency'' then snd kv = JStr ''None''
         else isEmptyDefault (snd kv))"
proof -
  have a: "\<forall>v \<in> set (map snd fundingDefaults). isEmptyDefault v"
    by (simp add: fundingDefaults_def isEmptyDefault_def)
  have b: "\<forall>kv \<in> set jobDefaults.
             if fst kv = ''hiring_urgency'' then snd kv = JStr ''None''
             else isEmptyDefault (snd kv)"
    by (simp add: jobDefaults_def isEmptyDefault_def)
  show ?thesis
    using job_columns_defined [of rt jw c] funding_columns_defined [of rt fw c]
      job_columns_types [of rt jw c] funding_columns_types [of rt fw c]
      job_columns_on_failure [of rt jw c] funding_columns_on_failure [of rt fw c] a b
    by (simp add: processJobs_def processFunding_def)
qed

theorem stage_leaves_complete_typed_columns_witness:
  "isl (fuseJobs sample_runtime downJobWorld acme)
   \<and> isl (fuseFunding sample_runtime downFundingWorld acme)
   \<and> map (readProp (processJobCompany sample_runtime downJobWorld acme)) jobColumns
       = [JBool False, JBool False, JBool False, JBool False, JStr [], JStr [], JNum 0,
          JStr ''None'', JStr [], JNum 0]
   \<and> map (readProp (processFundingCompany sample_runtime downFundingWorld acme)) fundingColumns
       = [JBool False, JBool False, JStr [], JStr [], JStr [], JStr [], JStr [], JStr [], JNum 0]
   \<and> length (processJobs sample_runtime (\<lambda>c. downJobWorld) [acme, bare]) = 2"
  using stage_leaves_complete_typed_columns
          [of sample_runtime "\<lambda>c. downJobWorld" "[acme, bare]" "\<lambda>c. downFundingWorld"
              downJobWorld acme downFundingWorld]
  by (simp add: down_job_fuse down_funding_fuse jobDefaults_def fundingDefaults_def)

text \<open>
  The claim names \<^verbatim>\<open>false\<close>, the empty string and \<open>0\<close> as the only defaults; after a failed
  primary call the jobs stage leaves \<^verbatim>\<open>hiring_urgency\<close> with the string \<^verbatim>\<open>None\<close>.
\<close>

theorem failed_job_lookup_leaves_urgency_None:
  "isl (fuseJobs sample_runtime downJobWorld acme)
   \<and> readProp (processJobCompany sample_runtime downJobWorld acme) ''hiring_urgency''
       = JStr ''None''
   \<and> \<not> isEmptyDefault (JStr ''None'')"
  by (simp add: down_job_fuse processJobCompany_def readProp_assignAll jobDefaults_def
        isEmptyDefault_def)

subsection \<open>Merged lists\<close>

lemma startsWith_semi:
  "startsWith (ch # d # cs) ''; '' = (ch = CHR '';'' \<and> d = CHR '' '')"
  by simp

lemma split_semi_last:
  "\<not> str_includes t ''; '' \<Longrightarrow> split_semi acc t = [rev acc @ t]"
proof (induction acc t rule: split_semi.induct)
  case (1 acc)
  then show ?case by simp
next
  case (2 acc ch)
  then show ?case by simp
next
  case (3 acc ch d cs)
  then show ?case by (auto split: if_splits)
qed

lemma split_semi_token:
  "\<not> str_includes t ''; ''
   \<Longrightarrow> split_semi acc (t @ CHR '';'' # CHR '' '' # rest) = (rev acc @ t) # split_semi [] rest"
proof (induction t arbitrary: acc)
  case Nil
  then show ?case by simp
next
  case (Cons ch t)
  show ?case
  proof (cases t)
    case Nil
    then show ?thesis by auto
  next
    case (Cons d t')
    with Cons.prems have n: "\<not> (ch = CHR '';'' \<and> d = CHR '' '')" and r: "\<not> str_includes t ''; ''"
      by auto
    from Cons.IH [OF r, of "ch # acc"] n Cons show ?thesis by auto
  qed
qed

lemma split_join_titles:
  assumes "ts \<noteq> []" and "\<forall>t \<in> set ts. \<not> str_includes t ''; ''"
  shows "split_titles (js_join ''; '' ts) = ts"
  using assms
proof (induction ts)
  case Nil
  then show ?case by simp
next
  case (Cons t ts)
  show ?case
  proof (cases "ts = []")
    case True
    with Cons.prems show ?thesis
      by (simp add: split_titles_def split_semi_last)
  next
    case False
    with Cons have ih: "split_semi [] (js_join ''; '' ts) = ts"
      by (simp add: split_titles_def)
    from Cons.prems have "\<not> str_includes t ''; ''" by simp
    from split_semi_token [OF this, of "[]" "js_join ''; '' ts"] ih False
    show ?thesis by (simp add: split_titles_def)
  qed
qed

lemma findJobOpenings_titles:
  "jobTitles (findJobOpenings rt web c) =
     (if truthy (readProp c ''website'') \<and> job_tier.found (scrapeCareerPage web)
      then job_tier.titles (scrapeCareerPage web) else [])
     @ (if job_tier.found (searchGoogleHiring rt c)
        then job_tier.titles (searchGoogleHiring rt c) else [])
     @ (if truthy (js_or (readProp c ''linkedin_url'') (readProp c ''linkedin''))
           \<and> job_tier.found (scrapeLinkedInPublic web)
        then job_tier.titles (scrapeLinkedInPublic web) else [])"
  by (simp add: findJobOpenings_def addJobSource_def emptyJobFallback_def Let_def)

lemma findFundingData_details:
  "funding_fallback.details (findFundingData rt web c) =
     (if truthy (readProp c ''website'') \<and> funding_tier.found (scrapePressReleases web)
      then funding_tier.details (scrapePressReleases web) else [])
     @ (if funding_tier.found (searchFundingNews rt c)
        then funding_tier.details (searchFundingNews rt c) else [])
     @ (if truthy (js_or (readProp c ''linkedin_url'') (readProp c ''linkedin''))
           \<and> funding_tier.found (scrapeLinkedInFunding web)
        then funding_tier.details (scrapeLinkedInFunding web) else [])"
  by (simp add: findFundingData_def addFundingSource_def emptyFundingFallback_def Let_def)

lemma primary_titles_roundtrip:
  assumes "\<forall>j \<in> set jobs. \<not> str_includes (title j) ''; ''"
    and "recent_job_titles (jobDataOf jobs) \<noteq> []"
  shows "split_titles (recent_job_titles (jobDataOf jobs)) = take 5 (map title (filter recent jobs))"
proof -
  let ?ts = "take 5 (map title (filter recent jobs))"
  have r: "recent_job_titles (jobDataOf jobs) = js_join ''; '' ?ts"
    by (simp add: jobDataOf_def Let_def analyzeJobRoles_def)
  with assms(2) have ne: "?ts \<noteq> []" by auto
  have "\<forall>t \<in> set ?ts. \<not> str_includes t ''; ''"
    using assms(1) by (auto dest!: in_set_takeD)
  from split_join_titles [OF ne this] r show ?thesis by simp
qed

text \<open>
  C7, as the code has it. The merged job titles are the first five of: the primary
  titles (the primary string split again at ``; ''), then the titles of the fallback
  methods that found something, in call order. When no primary title contains ``; ''
  the split gives back the (at most five) titles of the recent jobs. The merged funding
  details are the first three, not five, of: the primary details string as one single
  item when it is not empty, then the fallback details, in call order, each written as
  text and source.
\<close>

theorem merged_lists_are_capped_concatenations:
  "recent_job_titles (mergeFallbackData_jobs p f)
     = js_join ''; ''
         (take 5 ((if recent_job_titles p = [] then [] else split_titles (recent_job_titles p))
                  @ jobTitles f))
   \<and> funding_details (mergeFallbackData_funding q g)
       = js_join '' | ''
           (take 3 ((if funding_details q = [] then [] else [funding_details q])
                    @ map (\<lambda>d. dtext d @ '' ('' @ source d @ '')'') (funding_fallback.details g)))
   \<and> ((\<forall>j \<in> set jobs. \<not> str_includes (title j) ''; '')
          \<and> recent_job_titles (jobDataOf jobs) \<noteq> []
        \<longrightarrow> recent_job_titles (mergeFallbackData_jobs (jobDataOf jobs) f)
            = js_join ''; '' (take 5 (take 5 (map title (filter recent jobs)) @ jobTitles f)))
   \<and> jobTitles (findJobOpenings rt jweb c)
       = (if truthy (readProp c ''website'') \<and> job_tier.found (scrapeCareerPage jweb)
          then job_tier.titles (scrapeCareerPage jweb) else [])
         @ (if job_tier.found (searchGoogleHiring rt c)
            then job_tier.titles (searchGoogleHiring rt c) else [])
         @ (if truthy (js_or (readProp c ''linkedin_url'') (readProp c ''linkedin''))
               \<and> job_tier.found (scrapeLinkedInPublic jweb)
            then job_tier.titles (scrapeLinkedInPublic jweb) else [])
   \<and> funding_fallback.details (findFundingData rt fweb c)
       = (if truthy (readProp c ''website'') \<and> funding_tier.found (scrapePressReleases fweb)
          then funding_tier.details (scrapePressReleases fweb) else [])
         @ (if funding_tier.found (searchFundingNews rt c)
            then funding_tier.details (searchFundingNews rt c) else [])
         @ (if truthy (js_or (readProp c ''linkedin_url'') (readProp c ''linkedin''))
               \<and> funding_tier.found (scrapeLinkedInFunding fweb)
            then funding_tier.details (scrapeLinkedInFunding fweb) else [])"
proof -
  have a: "recent_job_titles (mergeFallbackData_jobs p f)
     = js_join ''; ''
         (take 5 ((if recent_job_titles p = [] then [] else split_titles (recent_job_titles p))
                  @ jobTitles f))" for p
    by (simp add: mergeFallbackData_jobs_def Let_def)
  have b: "funding_details (mergeFallbackData_funding q g)
       = js_join '' | ''
           (take 3 ((if funding_details q = [] then [] else [funding_details q])
                    @ map (\<lambda>d. dtext d @ '' ('' @ source d @ '')'') (funding_fallback.details g)))"
    by (simp add: mergeFallbackData_funding_def Let_def)
  have c: "(\<forall>j \<in> set jobs. \<not> str_includes (title j) ''; '')
          \<and> recent_job_titles (jobDataOf jobs) \<noteq> []
        \<longrightarrow> recent_job_titles (mergeFallbackData_jobs (jobDataOf jobs) f)
            = js_join ''; '' (take 5 (take 5 (map title (filter recent jobs)) @ jobTitles f))"
    using primary_titles_roundtrip [of jobs] by (simp add: a)
  show ?thesis
    using a [of p] b c findJobOpenings_titles [of rt jweb c] findFundingData_details [of rt fweb c]
    by simp
qed

lemma engineer_titles:
  "recent_job_titles (jobDataOf [engineerJob]) = ''Software Engineer''"
  by (simp add: jobDataOf_def Let_def engineerJob_def analyzeJobRoles_def)

theorem merged_lists_are_capped_concatenations_witness:
  "\<not> str_includes (title engineerJob) ''; ''
   \<and> recent_job_titles (jobDataOf [engineerJob]) \<noteq> []
   \<and> recent_job_titles
        (mergeFallbackData_jobs (jobDataOf [engineerJob])
           (emptyJobFallback \<lparr> jobTitles := [''Account Executive''] \<rparr>))
       = ''Software Engineer; Account Executive''"
proof -
  have h: "(\<forall>j \<in> set [engineerJob]. \<not> str_includes (title j) ''; '')
           \<and> recent_job_titles (jobDataOf [engineerJob]) \<noteq> []"
    by (simp add: engineer_titles) (simp add: engineerJob_def)
  from merged_lists_are_capped_concatenations
         [of "jobDataOf [engineerJob]" "emptyJobFallback \<lparr> jobTitles := [''Account Executive''] \<rparr>"
             "fundingDataOf sample_runtime noCrunchbase" fourDetails "[engineerJob]"
             sample_runtime quiet_job_web acme quiet_funding_web]
  have "(\<forall>j \<in> set [engineerJob]. \<not> str_includes (title j) ''; '')
          \<and> recent_job_titles (jobDataOf [engineerJob]) \<noteq> []
        \<longrightarrow> recent_job_titles (mergeFallbackData_jobs (jobDataOf [engineerJob])
                (emptyJobFallback \<lparr> jobTitles := [''Account Executive''] \<rparr>))
            = js_join ''; '' (take 5 (take 5 (map title (filter recent [engineerJob]))
                 @ jobTitles (emptyJobFallback \<lparr> jobTitles := [''Account Executive''] \<rparr>)))"
    by blast
  with h have "recent_job_titles (mergeFallbackData_jobs (jobDataOf [engineerJob])
                (emptyJobFallback \<lparr> jobTitles := [''Account Executive''] \<rparr>))
            = js_join ''; '' (take 5 (take 5 (map title (filter recent [engineerJob]))
                 @ jobTitles (emptyJobFallback \<lparr> jobTitles := [''Account Executive''] \<rparr>)))"
    by blast
  then have "recent_job_titles (mergeFallbackData_jobs (jobDataOf [engineerJob])
                (emptyJobFallback \<lparr> jobTitles := [''Account Executive''] \<rparr>))
            = ''Software Engineer; Account Executive''"
    by (simp add: engineerJob_def emptyJobFallback_def)
  with h show ?thesis by simp
qed

text \<open>
  A cap of five would keep all four fallback details of this merge; the code keeps three.
\<close>

lemma fourDetails_merge:
  "funding_details (mergeFallbackData_funding (fundingDataOf sample_runtime noCrunchbase) fourDetails)
     = ''r1 (press_release) | r2 (press_release) | r3 (press_release)''"
  by (simp add: mergeFallbackData_funding_def fundingDataOf_def noCrunchbase_def Let_def
        formatFundingDetails_def fourDetails_def emptyFundingFallback_def pressDetail_def)

theorem funding_details_are_capped_at_three:
  "funding_details (fundingDataOf sample_runtime noCrunchbase) = []
   \<and> length (funding_fallback.details fourDetails) = 4
   \<and> funding_details
        (mergeFallbackData_funding (fundingDataOf sample_runtime noCrunchbase) fourDetails)
       = ''r1 (press_release) | r2 (press_release) | r3 (press_release)''
   \<and> funding_details
        (mergeFallbackData_funding (fundingDataOf sample_runtime noCrunchbase) fourDetails)
       \<noteq> js_join '' | ''
           (take 5 (map (\<lambda>d. dtext d @ '' ('' @ source d @ '')'')
                      (funding_fallback.details fourDetails)))"
  by (simp add: fourDetails_merge)
     (simp add: fundingDataOf_def noCrunchbase_def Let_def formatFundingDetails_def
        fourDetails_def emptyFundingFallback_def pressDetail_def)

subsection \<open>Columns of the final CSV\<close>

lemma priorityColumns_distinct: "distinct priorityColumns"
  by (simp add: priorityColumns_def)

lemma priority_not_excluded: "col \<in> set priorityColumns \<Longrightarrow> col \<notin> set excludeColumns"
  by (auto simp: priorityColumns_def excludeColumns_def)

lemma allHeaders_set: "set (allHeaders companies) = (\<Union>c \<in> set companies. fst ` set c)"
  by (auto simp: allHeaders_def)

lemma allHeaders_distinct: "distinct (allHeaders companies)"
  by (simp add: allHeaders_def)

lemma orderedHeaders_set:
  "set (orderedHeaders companies) = set (allHeaders companies) - set excludeColumns"
  using priority_not_excluded by (auto simp: orderedHeaders_def Let_def)

lemma orderedHeaders_distinct: "distinct (orderedHeaders companies)"
  using priorityColumns_distinct allHeaders_distinct [of companies]
  by (auto simp: orderedHeaders_def Let_def)

lemma row_cell_of_header:
  "k \<in> set hs \<Longrightarrow> map_of (zip hs (rowCells rt hs c)) k = Some (csvCell rt (readProp c k))"
  by (simp add: rowCells_def map_of_zip_map)

lemma plain_string_cell:
  "CHR '','' \<notin> set s \<Longrightarrow> CHR 0x22 \<notin> set s \<Longrightarrow> CHR 0x0A \<notin> set s \<Longrightarrow> csvCell rt (JStr s) = s"
  by (simp add: csvCell_def Let_def)

text \<open>
  C8, as the code has it. Every column of any company passes through to the final CSV
  except the five hidden names (\<^verbatim>\<open>linkedin\<close>, \<^verbatim>\<open>LinkedIn\<close>, \<^verbatim>\<open>LinkedIn URL\<close>,
  \<^verbatim>\<open>LinkedIn url\<close>, \<^verbatim>\<open>linkedin_original\<close>): it occurs once in the header, and the row of
  the company holds its value there in CSV form (a string without comma, quote and
  newline as it is). The header is not ``original columns, then enrichment columns'':
  the priority columns that occur come first in their preferred order, and all other
  columns, original or enrichment, follow sorted by name.
\<close>

theorem columns_pass_through:
  assumes "c \<in> set companies" and "k \<in> fst ` set c" and "k \<notin> set excludeColumns"
  shows "k \<in> set (orderedHeaders companies)
         \<and> distinct (orderedHeaders companies)
         \<and> set (orderedHeaders companies) \<inter> set excludeColumns = {}
         \<and> orderedHeaders companies
             = filter (\<lambda>col. col \<in> set (allHeaders companies)) priorityColumns
               @ sort (filter (\<lambda>col. col \<notin> set priorityColumns \<and> col \<notin> set excludeColumns)
                         (allHeaders companies))
         \<and> map_of (zip (orderedHeaders companies) (rowCells rt (orderedHeaders companies) c)) k
             = Some (csvCell rt (readProp c k))
         \<and> (CHR '','' \<notin> set s \<and> CHR 0x22 \<notin> set s \<and> CHR 0x0A \<notin> set s
              \<longrightarrow> csvCell rt (JStr s) = s)
         \<and> generateCSV rt companies
             = js_join [CHR 0x0A]
                 (js_join '','' (orderedHeaders companies)
                  # map (\<lambda>c. js_join '','' (rowCells rt (orderedHeaders companies) c)) companies)"
proof -
  from assms have k: "k \<in> set (orderedHeaders companies)"
    by (auto simp: orderedHeaders_set allHeaders_set)
  have o: "orderedHeaders companies
             = filter (\<lambda>col. col \<in> set (allHeaders companies)) priorityColumns
               @ sort (filter (\<lambda>col. col \<notin> set priorityColumns \<and> col \<notin> set excludeColumns)
                         (allHeaders companies))"
    by (simp add: orderedHeaders_def Let_def conj_commute)
  have g: "generateCSV rt companies
             = js_join [CHR 0x0A]
                 (js_join '','' (orderedHeaders companies)
                  # map (\<lambda>c. js_join '','' (rowCells rt (orderedHeaders companies) c)) companies)"
    using assms(1) by (auto simp: generateCSV_def csvRows_def)
  have d: "set (orderedHeaders companies) \<inter> set excludeColumns = {}"
    by (auto simp: orderedHeaders_set)
  show ?thesis
    using k orderedHeaders_distinct [of companies] d o row_cell_of_header [OF k, of rt c]
      plain_string_cell [of s rt] g
    by blast
qed

lemma stand_headers:
  "orderedHeaders [stand] = [''name'', ''priority_score'', ''booth'', ''job_confidence'', ''zip'']"
  by (simp add: orderedHeaders_def allHeaders_def stand_def priorityColumns_def
        excludeColumns_def Let_def)

lemma stand_cells:
  "rowCells sample_runtime [''name'', ''priority_score'', ''booth'', ''job_confidence'', ''zip''] stand
     = [''Acme'', ''3'', ''B12'', ''0'', ''75001'']"
  by (simp add: rowCells_def stand_def readProp_def csvCell_def sample_runtime_def decimal.simps)

theorem columns_pass_through_witness:
  "stand \<in> set [stand] \<and> ''zip'' \<in> fst ` set stand \<and> ''zip'' \<notin> set excludeColumns
   \<and> ''zip'' \<in> set (orderedHeaders [stand])
   \<and> map_of (zip (orderedHeaders [stand]) (rowCells sample_runtime (orderedHeaders [stand]) stand))
        ''zip'' = Some ''75001''"
proof -
  have h1: "stand \<in> set [stand]" by simp
  have h2: "''zip'' \<in> fst ` set stand" by (simp add: stand_def)
  have h3: "''zip'' \<notin> set excludeColumns" by (simp add: excludeColumns_def)
  have v: "csvCell sample_runtime (readProp stand ''zip'') = ''75001''"
    by (simp add: stand_def readProp_def csvCell_def)
  from columns_pass_through [OF h1 h2 h3, of sample_runtime "[]"]
  have "''zip'' \<in> set (orderedHeaders [stand])
        \<and> map_of (zip (orderedHeaders [stand])
                    (rowCells sample_runtime (orderedHeaders [stand]) stand)) ''zip''
            = Some (csvCell sample_runtime (readProp stand ''zip''))"
    by blast
  with h1 h2 h3 v show ?thesis by simp
qed

text \<open>
  An input with the columns \<^verbatim>\<open>name\<close>, \<^verbatim>\<open>zip\<close>, \<^verbatim>\<open>LinkedIn\<close> and \<^verbatim>\<open>booth\<close>: the enrichment
  columns stand before and between the original ones, and \<^verbatim>\<open>LinkedIn\<close> is gone.
\<close>

theorem enrichment_columns_are_not_appended:
  "orderedHeaders [stand] = [''name'', ''priority_score'', ''booth'', ''job_confidence'', ''zip'']
   \<and> generateCSV sample_runtime [stand]
       = ''name,priority_score,booth,job_confidence,zip'' @ [CHR 0x0A] @ ''Acme,3,B12,0,75001''
   \<and> ''LinkedIn'' \<in> fst ` set stand
   \<and> ''LinkedIn'' \<notin> set (orderedHeaders [stand])"
  by (simp add: generateCSV_def csvRows_def stand_headers stand_cells) (simp add: stand_def)

subsection \<open>Rows of the final CSV\<close>

lemma job_stage_keeps_other_columns:
  "k \<notin> set jobColumns \<Longrightarrow> readProp (processJobCompany rt w c) k = readProp c k"
  by (cases "fuseJobs rt w c")
     (auto simp: processJobCompany_def readProp_assignAll jobColumns_def jobDefaults_def
        jobFields_def)

lemma funding_stage_keeps_other_columns:
  "k \<notin> set fundingColumns \<Longrightarrow> readProp (processFundingCompany rt w c) k = readProp c k"
  by (cases "fuseFunding rt w c")
     (auto simp: processFundingCompany_def readProp_assignAll fundingColumns_def
        fundingDefaults_def fundingFields_def)

lemma employee_stage_keeps_name:
  "readProp (fst (processEmployeeCompany cfg rt api c)) ''name'' = readProp c ''name''"
  by (cases "fst (getEmployeeCountWithRetry cfg rt c api 0)")
     (simp_all add: processEmployeeCompany_def readProp_assignAll)

lemma employee_stage_kept_flag:
  "snd (processEmployeeCompany cfg rt api c)
   \<Longrightarrow> readProp (fst (processEmployeeCompany cfg rt api c)) ''in_target_range_11_200'' = JBool True"
  by (cases "fst (getEmployeeCountWithRetry cfg rt c api 0)")
     (simp_all add: processEmployeeCompany_def readProp_assignAll)

lemma scoreCompany_keeps_other_columns:
  "scoreCompany rt c = Inr c' \<Longrightarrow> k \<notin> {''priority_score'', ''processing_date'', ''processing_notes''}
   \<Longrightarrow> readProp c' k = readProp c k"
  by (auto simp: scoreCompany_def Let_def readProp_assign split: sum.splits)

lemma scoreAll_keeps:
  "scoreAll rt cs = Inr cs' \<Longrightarrow> k \<notin> {''priority_score'', ''processing_date'', ''processing_notes''}
   \<Longrightarrow> map (\<lambda>c. readProp c k) cs' = map (\<lambda>c. readProp c k) cs"
proof (induction cs arbitrary: cs')
  case Nil
  then show ?case by simp
next
  case (Cons c cs)
  from Cons.prems(1) obtain c1 cs1 where
    s: "scoreCompany rt c = Inr c1" "scoreAll rt cs = Inr cs1" "cs' = c1 # cs1"
    by (auto split: sum.splits)
  from scoreCompany_keeps_other_columns [OF s(1) Cons.prems(2)] Cons.IH [OF s(2) Cons.prems(2)] s(3)
  show ?case by simp
qed

lemma scoreAll_length: "scoreAll rt cs = Inr cs' \<Longrightarrow> length cs' = length cs"
  using scoreAll_keeps [of rt cs cs' "''name''"] by (auto dest: map_eq_imp_length_eq)


lemma processEmployees_alt:
  "processEmployees cfg rt ew companies
     = map (\<lambda>c. fst (processEmployeeCompany cfg rt (ew c) c))
         (filter (\<lambda>c. snd (processEmployeeCompany cfg rt (ew c) c)) companies)"
  by (induction companies) (simp_all add: processEmployees_def)

lemma runStages_names:
  "map (\<lambda>c. readProp c ''name'') (runStages cfg rt w companies)
     = map (\<lambda>c. readProp c ''name'') (filter (keptByEmployeeStage cfg rt w) companies)"
proof -
  have j: "''name'' \<notin> set jobColumns" by (simp add: jobColumns_def jobDefaults_def)
  have f: "''name'' \<notin> set fundingColumns" by (simp add: fundingColumns_def fundingDefaults_def)
  have k: "keptByEmployeeStage cfg rt w
           = (\<lambda>c. snd (processEmployeeCompany cfg rt (employeeWorld w c) c))"
    by (simp add: fun_eq_iff keptByEmployeeStage_def)
  show ?thesis
    by (simp add: runStages_def processJobs_def processFunding_def processEmployees_alt
          comp_def job_stage_keeps_other_columns [OF j] funding_stage_keeps_other_columns [OF f]
          employee_stage_keeps_name k)
qed

lemma runStages_flags:
  "c \<in> set (runStages cfg rt w companies) \<Longrightarrow> readProp c ''in_target_range_11_200'' = JBool True"
proof -
  have j: "''in_target_range_11_200'' \<notin> set jobColumns" by (simp add: jobColumns_def jobDefaults_def)
  have f: "''in_target_range_11_200'' \<notin> set fundingColumns"
    by (simp add: fundingColumns_def fundingDefaults_def)
  assume "c \<in> set (runStages cfg rt w companies)"
  then show ?thesis
    by (auto simp: runStages_def processJobs_def processFunding_def processEmployees_alt
          job_stage_keeps_other_columns [OF j] funding_stage_keeps_other_columns [OF f]
          employee_stage_kept_flag)
qed

lemma pipeline_rows_kept:
  assumes "runPipeline cfg rt w input = Inr csv"
  shows "\<exists>final. csv = generateCSV rt final
           \<and> length (csvRows rt final) = length (filter (keptByEmployeeStage cfg rt w) input)
           \<and> map (\<lambda>c. readProp c ''name'') final
               = map (\<lambda>c. readProp c ''name'') (filter (keptByEmployeeStage cfg rt w) input)
           \<and> list_all (\<lambda>c. readProp c ''in_target_range_11_200'' = JBool True) final"
proof -
  from assms obtain final where
    s: "scoreAll rt (runStages cfg rt w input) = Inr final" and c: "csv = generateCSV rt final"
    by (auto simp: runPipeline_def generate_def split: sum.splits)
  have n: "map (\<lambda>c. readProp c ''name'') final
           = map (\<lambda>c. readProp c ''name'') (filter (keptByEmployeeStage cfg rt w) input)"
    using scoreAll_keeps [OF s, of "''name''"] runStages_names [of cfg rt w input] by simp
  then have l: "length final = length (filter (keptByEmployeeStage cfg rt w) input)"
    by (auto dest: map_eq_imp_length_eq)
  have "map (\<lambda>c. readProp c ''in_target_range_11_200'') final
        = map (\<lambda>c. readProp c ''in_target_range_11_200'') (runStages cfg rt w input)"
    using scoreAll_keeps [OF s, of "''in_target_range_11_200''"] by simp
  also have "\<dots> = map (\<lambda>c. JBool True) (runStages cfg rt w input)"
    using runStages_flags [of _ cfg rt w input] by (auto intro: map_cong)
  finally have "\<forall>c \<in> set final. readProp c ''in_target_range_11_200'' = JBool True"
    by (metis (mono_tags, lifting) imageE image_eqI list.set_map)
  then have t: "list_all (\<lambda>c. readProp c ''in_target_range_11_200'' = JBool True) final"
    by (simp add: list_all_iff)
  from c n l t show ?thesis by (auto simp: csvRows_def)
qed

text \<open>
  C3, as the code has it. The employee stage filters: it keeps the companies whose
  employee lookup succeeded with a count or range inside the target window and drops
  the others. When the pipeline writes its file, the final CSV has one row for every
  company the employee stage kept, in input order and with the name of the input
  company, and every one of them carries \<^verbatim>\<open>in_target_range_11_200\<close> true; the input
  companies that were dropped have no row.
\<close>

theorem final_csv_rows_are_the_kept_companies:
  assumes "runPipeline cfg rt w input = Inr csv"
  shows "\<exists>final. csv = generateCSV rt final
           \<and> length (csvRows rt final) = length (filter (keptByEmployeeStage cfg rt w) input)
           \<and> map (\<lambda>c. readProp c ''name'') final
               = map (\<lambda>c. readProp c ''name'') (filter (keptByEmployeeStage cfg rt w) input)
           \<and> list_all (\<lambda>c. readProp c ''in_target_range_11_200'' = JBool True) final"
  using pipeline_rows_kept [OF assms] .

lemma listed_props:
  "readProp (listed n) ''name'' = JStr n"
  "truthy (readProp (listed n) ''linkedin_url'')"
  "readProp (listed n) ''linkedin_url'' = JStr (''https://www.linkedin.com/company/'' @ n)"
  "readProp (listed n) ''website'' = JUndefined"
  by (simp_all add: listed_def readProp_def)

lemma sample_numToString:
  "numToString sample_runtime 5 = ''5''"
  "numToString sample_runtime 45 = ''45''"
  "numToString sample_runtime 250 = ''250''"
  by (simp_all add: sample_runtime_def decimal.simps)

lemma headCount_in_window:
  "\<not> isInTargetRange window sample_runtime (JNum 5) JNull"
  "isInTargetRange window sample_runtime (JNum 45) JNull"
  "\<not> isInTargetRange window sample_runtime (JNum 250) JNull"
  by (simp_all add: isInTargetRange_def parseInt_def sample_numToString parseInt_str_def
        trimStart_def whiteSpace_def signed_def radix_digit_def window_def Let_def)

lemma employee_call:
  "n \<noteq> 0 \<Longrightarrow>
   fst (getEmployeeCountWithRetry window sample_runtime (listed nm) [Ok (headCount n)] 0)
     = Inr \<lparr> employeeData.api_success = True,
             employeeData.employee_count = JNum n,
             employeeData.employee_range = JNull,
             in_target_range_11_200 = isInTargetRange window sample_runtime (JNum n) JNull,
             employee_data_source = ''Exact count: '' @ numToString sample_runtime n \<rparr>"
  by (simp add: getEmployeeCountWithRetry.simps getEmployeeCount_def listed_props request_def
        headCount_def extractEmployeeCount_def extractEmployeeRange_def js_or_def
        generateEvidence_def Let_def)

lemma staff_api:
  "employeeWorld staffWorld (listed ''tiny'') = [Ok (headCount 5)]"
  "employeeWorld staffWorld (listed ''mid'') = [Ok (headCount 45)]"
  "employeeWorld staffWorld (listed ''big'') = [Ok (headCount 250)]"
  by (simp_all add: staffWorld_def listed_props)

lemma three_kept:
  "\<not> keptByEmployeeStage window sample_runtime staffWorld (listed ''tiny'')"
  "keptByEmployeeStage window sample_runtime staffWorld (listed ''mid'')"
  "\<not> keptByEmployeeStage window sample_runtime staffWorld (listed ''big'')"
  by (simp_all add: keptByEmployeeStage_def staff_api processEmployeeCompany_def employee_call
        headCount_in_window)

lemma three_filter:
  "filter (keptByEmployeeStage window sample_runtime staffWorld) threeCompanies = [listed ''mid'']"
  by (simp add: threeCompanies_def three_kept)

lemma nonBlank_ok:
  "readProp c k = JUndefined \<or> (\<exists>s. readProp c k = JStr s) \<Longrightarrow> \<exists>b. nonBlank c k = Inr b"
  by (auto simp: nonBlank_def Let_def)

lemma scoreCompany_ok:
  assumes "readProp c ''linkedin_url'' = JUndefined \<or> (\<exists>s. readProp c ''linkedin_url'' = JStr s)"
    and "readProp c ''website'' = JUndefined \<or> (\<exists>s. readProp c ''website'' = JStr s)"
  shows "\<exists>c'. scoreCompany rt c = Inr c'"
proof -
  from nonBlank_ok [OF assms(1)] obtain b where b: "nonBlank c ''linkedin_url'' = Inr b" by blast
  let ?c2 = "assign ''processing_date'' (JStr (nowISO rt))
               (assign ''priority_score''
                  (JNum (of_int (case calculatePriorityScore c of Inr n \<Rightarrow> n | Inl e \<Rightarrow> 0))) c)"
  have l: "readProp ?c2 ''linkedin_url'' = readProp c ''linkedin_url''"
    and w: "readProp ?c2 ''website'' = readProp c ''website''"
    by (simp_all add: readProp_assign)
  from nonBlank_ok [of ?c2 "''linkedin_url''"] assms(1) l
  obtain b2 where b2: "nonBlank ?c2 ''linkedin_url'' = Inr b2" by auto
  from nonBlank_ok [of ?c2 "''website''"] assms(2) w
  obtain b3 where b3: "nonBlank ?c2 ''website'' = Inr b3" by auto
  show ?thesis
    using b b2 b3
    by (simp add: scoreCompany_def calculatePriorityScore_def generateProcessingNotes_def Let_def)
qed

lemma three_stages_columns:
  assumes "c \<in> set (runStages window sample_runtime staffWorld threeCompanies)"
  shows "readProp c ''linkedin_url'' = JStr ''https://www.linkedin.com/company/mid''"
    and "readProp c ''website'' = JUndefined"
proof -
  have j: "''linkedin_url'' \<notin> set jobColumns" "''website'' \<notin> set jobColumns"
    by (simp_all add: jobColumns_def jobDefaults_def)
  have f: "''linkedin_url'' \<notin> set fundingColumns" "''website'' \<notin> set fundingColumns"
    by (simp_all add: fundingColumns_def fundingDefaults_def)
  have k: "(\<lambda>c. snd (processEmployeeCompany window sample_runtime (employeeWorld staffWorld c) c))
           = keptByEmployeeStage window sample_runtime staffWorld"
    by (simp add: fun_eq_iff keptByEmployeeStage_def)
  from assms have c: "c = processJobCompany sample_runtime (jobWorld staffWorld
                            (processFundingCompany sample_runtime (fundingWorld staffWorld
                               (fst (processEmployeeCompany window sample_runtime
                                  (employeeWorld staffWorld (listed ''mid'')) (listed ''mid''))))
                               (fst (processEmployeeCompany window sample_runtime
                                  (employeeWorld staffWorld (listed ''mid'')) (listed ''mid'')))))
                         (processFundingCompany sample_runtime (fundingWorld staffWorld
                               (fst (processEmployeeCompany window sample_runtime
                                  (employeeWorld staffWorld (listed ''mid'')) (listed ''mid''))))
                               (fst (processEmployeeCompany window sample_runtime
                                  (employeeWorld staffWorld (listed ''mid'')) (listed ''mid''))))"
    by (simp add: runStages_def processJobs_def processFunding_def processEmployees_alt k
          three_filter)
  have e: "readProp (fst (processEmployeeCompany window sample_runtime api (listed ''mid''))) kk
           = readProp (listed ''mid'') kk"
    if "kk = ''linkedin_url'' \<or> kk = ''website''" for kk api
    using that
    by (cases "fst (getEmployeeCountWithRetry window sample_runtime (listed ''mid'') api 0)")
       (auto simp: processEmployeeCompany_def readProp_assignAll)
  show "readProp c ''linkedin_url'' = JStr ''https://www.linkedin.com/company/mid''"
    by (subst c) (simp add: job_stage_keeps_other_columns [OF j(1)]
          funding_stage_keeps_other_columns [OF f(1)] e listed_props)
  show "readProp c ''website'' = JUndefined"
    by (subst c) (simp add: job_stage_keeps_other_columns [OF j(2)]
          funding_stage_keeps_other_columns [OF f(2)] e listed_props)
qed

lemma scoreAll_ok:
  "(\<And>c. c \<in> set cs \<Longrightarrow> \<exists>c'. scoreCompany rt c = Inr c') \<Longrightarrow> \<exists>cs'. scoreAll rt cs = Inr cs'"
proof (induction cs)
  case Nil
  then show ?case by simp
next
  case (Cons c cs)
  from Cons.prems [of c] obtain c' where c: "scoreCompany rt c = Inr c'" by auto
  from Cons.IH Cons.prems obtain cs' where "scoreAll rt cs = Inr cs'" by auto
  with c show ?case by simp
qed

lemma three_pipeline_ok:
  "\<exists>csv. runPipeline window sample_runtime staffWorld threeCompanies = Inr csv"
proof -
  have "\<exists>cs'. scoreAll sample_runtime (runStages window sample_runtime staffWorld threeCompanies)
               = Inr cs'"
    by (rule scoreAll_ok) (auto intro!: scoreCompany_ok simp: three_stages_columns)
  then show ?thesis by (auto simp: runPipeline_def generate_def)
qed

theorem final_csv_rows_are_the_kept_companies_witness:
  "\<exists>csv final.
      runPipeline window sample_runtime staffWorld threeCompanies = Inr csv
      \<and> csv = generateCSV sample_runtime final
      \<and> length (csvRows sample_runtime final) = 1
      \<and> map (\<lambda>c. readProp c ''name'') final = [JStr ''mid'']"
proof -
  from three_pipeline_ok obtain csv
    where r: "runPipeline window sample_runtime staffWorld threeCompanies = Inr csv" by blast
  from final_csv_rows_are_the_kept_companies [OF r] r show ?thesis
    by (auto simp: three_filter listed_props)
qed

text \<open>
  Three companies go in and the file is written; it has the row of one of them.
\<close>

theorem employee_filter_drops_input_companies:
  "map (\<lambda>c. readProp c ''name'') threeCompanies = [JStr ''tiny'', JStr ''mid'', JStr ''big'']
   \<and> (\<exists>csv final.
         runPipeline window sample_runtime staffWorld threeCompanies = Inr csv
         \<and> csv = generateCSV sample_runtime final
         \<and> map (\<lambda>c. readProp c ''name'') final = [JStr ''mid'']
         \<and> length (csvRows sample_runtime final) < length threeCompanies)"
proof -
  from three_pipeline_ok obtain csv
    where r: "runPipeline window sample_runtime staffWorld threeCompanies = Inr csv" by blast
  have n: "map (\<lambda>c. readProp c ''name'') threeCompanies
           = [JStr ''tiny'', JStr ''mid'', JStr ''big'']"
    by (simp add: threeCompanies_def listed_props)
  have l: "length threeCompanies = 3"
    by (simp add: threeCompanies_def)
  from pipeline_rows_kept [OF r] r n l show ?thesis
    by (auto simp: three_filter listed_props)
qed

end
